theory Spec2Isabelle
  imports Complex_Main "HOL-Library.Multiset"
begin

section \<open>JavaScript numbers\<close>

text \<open>
  Every number of \<^verbatim>\<open>src/audit.js\<close> is an IEEE 754 binary64 value. Counts (array lengths and
  the counters built from them) are integers far below \<open>2^53\<close>, on which binary64 arithmetic
  is exact; they are modelled as \<open>int\<close>. Scores and durations are fractional; they are modelled
  by the rational number the double denotes, and every arithmetic operation on them rounds its
  exact result to the nearest double, ties to even (\<open>fl\<close>). The exponent range is not modelled:
  the program divides only by non-zero array lengths and by constants, so neither NaN nor an
  infinity arises, and its values stay far inside the normal range.
\<close>

type_synonym number = rat

function bitlen :: "int \<Rightarrow> int" where
  "bitlen n = (if n \<le> 0 then 0 else 1 + bitlen (n div 2))"
  by pat_completeness auto
termination
  by (relation "measure nat") auto

declare bitlen.simps [simp del]

definition two_pow :: "int \<Rightarrow> rat" where
  "two_pow e = (if 0 \<le> e then 2 ^ nat e else 1 / 2 ^ nat (- e))"

text \<open>\<open>ilog2 x\<close> is the binary exponent of \<open>x > 0\<close>: \<open>2 ^ ilog2 x \<le> x < 2 ^ (ilog2 x + 1)\<close>.\<close>

definition ilog2 :: "rat \<Rightarrow> int" where
  "ilog2 x = (case quotient_of x of (p, q) \<Rightarrow>
     (let k = bitlen p - bitlen q
      in if two_pow k \<le> x then k else k - 1))"

definition round_half_even :: "rat \<Rightarrow> int" where
  "round_half_even y = (let f = \<lfloor>y\<rfloor>; d = y - of_int f
     in if d < 1 / 2 then f else if 1 / 2 < d then f + 1 else if even f then f else f + 1)"

text \<open>Rounding to 53 significant bits.\<close>

definition fl :: "rat \<Rightarrow> number" where
  "fl x = (if x = 0 then 0
           else (let e = ilog2 \<bar>x\<bar> - 52
                 in of_int (round_half_even (x / two_pow e)) * two_pow e))"

definition fadd :: "number \<Rightarrow> number \<Rightarrow> number" where
  "fadd a b = fl (a + b)"

definition fsub :: "number \<Rightarrow> number \<Rightarrow> number" where
  "fsub a b = fl (a - b)"

definition fmul :: "number \<Rightarrow> number \<Rightarrow> number" where
  "fmul a b = fl (a * b)"

definition fdiv :: "number \<Rightarrow> number \<Rightarrow> number" where
  "fdiv a b = fl (a / b)"

section \<open>Strings\<close>

text \<open>
  A string is the list of the bytes of its UTF-8 encoding. A comma is one byte that occurs in
  no other character's encoding, and one well-formed string occurs in another exactly when
  its bytes do, so \<^verbatim>\<open>split\<close> and \<^verbatim>\<open>includes\<close> can work on the bytes.
\<close>

text \<open>\<^verbatim>\<open>String.prototype.includes\<close>: \<open>sub\<close> occurs in \<open>s\<close> as a contiguous substring.\<close>

fun startsWith :: "string \<Rightarrow> string \<Rightarrow> bool" where
  "startsWith s [] = True"
| "startsWith [] (d # ds) = False"
| "startsWith (c # cs) (d # ds) = (c = d \<and> startsWith cs ds)"

fun includes_str :: "string \<Rightarrow> string \<Rightarrow> bool" where
  "includes_str [] sub = (sub = [])"
| "includes_str (c # cs) sub = (startsWith (c # cs) sub \<or> includes_str cs sub)"

text \<open>\<^verbatim>\<open>s.split(',')\<close>: the pieces between commas; the empty string gives one empty piece.\<close>

fun split_comma :: "string \<Rightarrow> string list" where
  "split_comma [] = [[]]"
| "split_comma (c # cs) =
     (if c = CHR '','' then [] # split_comma cs
      else (case split_comma cs of
              [] \<Rightarrow> [[c]]
            | w # ws \<Rightarrow> (c # w) # ws))"

text \<open>
  \<^verbatim>\<open>s.trim()\<close> removes the white space and the line terminators of ECMAScript from both
  ends: U+0009 to U+000D, U+0020, U+00A0, U+1680, U+2000 to U+200A, U+2028, U+2029, U+202F,
  U+205F, U+3000 and U+FEFF. \<open>white_space\<close> lists their encodings. An encoding starts with a
  byte that continues no other character, so a string ends with one of these characters
  exactly when it ends with the bytes of its encoding.
\<close>

definition white_space :: "string list" where
  "white_space =
     [[CHR 0x09], [CHR 0x0A], [CHR 0x0B], [CHR 0x0C], [CHR 0x0D], [CHR 0x20],
      [CHR 0xC2, CHR 0xA0],
      [CHR 0xE1, CHR 0x9A, CHR 0x80],
      [CHR 0xE2, CHR 0x80, CHR 0x80], [CHR 0xE2, CHR 0x80, CHR 0x81],
      [CHR 0xE2, CHR 0x80, CHR 0x82], [CHR 0xE2, CHR 0x80, CHR 0x83],
      [CHR 0xE2, CHR 0x80, CHR 0x84], [CHR 0xE2, CHR 0x80, CHR 0x85],
      [CHR 0xE2, CHR 0x80, CHR 0x86], [CHR 0xE2, CHR 0x80, CHR 0x87],
      [CHR 0xE2, CHR 0x80, CHR 0x88], [CHR 0xE2, CHR 0x80, CHR 0x89],
      [CHR 0xE2, CHR 0x80, CHR 0x8A],
      [CHR 0xE2, CHR 0x80, CHR 0xA8], [CHR 0xE2, CHR 0x80, CHR 0xA9],
      [CHR 0xE2, CHR 0x80, CHR 0xAF],
      [CHR 0xE2, CHR 0x81, CHR 0x9F],
      [CHR 0xE3, CHR 0x80, CHR 0x80],
      [CHR 0xEF, CHR 0xBB, CHR 0xBF]]"

text \<open>The number of bytes of the white space character that \<open>s\<close> starts (ends) with, or 0.\<close>

definition space_prefix :: "string \<Rightarrow> nat" where
  "space_prefix s =
     (case List.find (startsWith s) white_space of None \<Rightarrow> 0 | Some w \<Rightarrow> length w)"

definition space_suffix :: "string \<Rightarrow> nat" where
  "space_suffix s =
     (case List.find (\<lambda>w. startsWith (rev s) (rev w)) white_space of
        None \<Rightarrow> 0
      | Some w \<Rightarrow> length w)"

function trimStart :: "string \<Rightarrow> string" where
  "trimStart s = (if space_prefix s = 0 then s else trimStart (drop (space_prefix s) s))"
  by pat_completeness auto
termination
proof (relation "measure length")
  fix s :: string
  assume "space_prefix s \<noteq> 0"
  moreover have "space_prefix [] = 0" by (simp add: space_prefix_def white_space_def)
  ultimately have "s \<noteq> []" by auto
  with \<open>space_prefix s \<noteq> 0\<close> show "(drop (space_prefix s) s, s) \<in> measure length" by simp
qed simp

function trimEnd :: "string \<Rightarrow> string" where
  "trimEnd s = (if space_suffix s = 0 then s else trimEnd (take (length s - space_suffix s) s))"
  by pat_completeness auto
termination
proof (relation "measure length")
  fix s :: string
  assume "space_suffix s \<noteq> 0"
  moreover have "space_suffix [] = 0" by (simp add: space_suffix_def white_space_def)
  ultimately have "s \<noteq> []" by auto
  with \<open>space_suffix s \<noteq> 0\<close>
  show "(take (length s - space_suffix s) s, s) \<in> measure length" by simp
qed simp

declare trimStart.simps [simp del] trimEnd.simps [simp del]

definition trim :: "string \<Rightarrow> string" where
  "trim s = trimEnd (trimStart s)"

section \<open>Data model\<close>

text \<open>
  A timestamp is an ISO 8601 string in the API; it is represented by the time value
  (milliseconds since the epoch) that \<^verbatim>\<open>new Date(s)\<close> gives it. \<open>None\<close> stands for
  \<^verbatim>\<open>null\<close> or \<^verbatim>\<open>undefined\<close>, the only falsy values a timestamp field takes.
\<close>

type_synonym timestamp = int

text \<open>A rejected request: \<^verbatim>\<open>error.status\<close> (absent on a network failure) and \<^verbatim>\<open>error.message\<close>.\<close>

record http_error =
  status :: "int option"
  message :: string

subsection \<open>Records of the platform's API\<close>

record repo =
  repo_name :: string
  repo_html_url :: string
  repo_private :: bool
  repo_default_branch :: string
  repo_updated_at :: timestamp
  repo_topics :: "string list option"

text \<open>An element of \<^verbatim>\<open>GET /repos/{owner}/{repo}/code-scanning/alerts\<close>.\<close>

record raw_code_alert =
  raw_code_number :: int
  raw_code_state :: string
  rule_security_severity_level :: "string option"
  rule_id :: string
  rule_description :: string
  location_path :: "string option"
  raw_code_created_at :: timestamp
  tool_name :: string

text \<open>An element of \<^verbatim>\<open>GET /repos/{owner}/{repo}/secret-scanning/alerts\<close>.\<close>

record raw_secret_alert =
  raw_secret_number :: int
  raw_secret_state :: string
  secret_type :: string
  secret_type_display_name :: string
  raw_secret_created_at :: timestamp
  resolved_at :: "timestamp option"
  resolved_by_login :: "string option"
  push_protection_bypassed :: "bool option"

text \<open>A node of the \<^verbatim>\<open>vulnerabilityAlerts\<close> connection of the GraphQL query.\<close>

record raw_dependency_alert =
  node_id :: string
  node_createdAt :: timestamp
  node_dismissedAt :: "timestamp option"
  securityVulnerability_severity :: string
  package_name :: string
  package_ecosystem :: string
  advisory_summary :: string
  advisory_description :: string
  cvss_score :: "number option"

text \<open>
  One page of the connection. \<open>None\<close> as a query result stands for a response in which
  \<^verbatim>\<open>result.repository?.vulnerabilityAlerts?.nodes\<close> is absent.
\<close>

record vulnerabilityAlerts =
  nodes :: "raw_dependency_alert list"
  pageInfo_hasNextPage :: bool
  pageInfo_endCursor :: "string option"

subsection \<open>The three alert shapes of the common model\<close>

text \<open>The object literal of \<^verbatim>\<open>getCodeScanningAlerts\<close> (lines 314-323).\<close>

record code_alert =
  code_number :: int
  code_state :: string
  code_severity :: string
  code_rule :: string
  code_description :: string
  code_path :: "string option"
  code_createdAt :: timestamp
  code_tool :: string

text \<open>The object literal of \<^verbatim>\<open>getSecretScanningAlerts\<close> (lines 353-362).\<close>

record secret_alert =
  secret_number :: int
  secret_state :: string
  secret_secretType :: string
  secret_secretTypeDisplayName :: string
  secret_createdAt :: timestamp
  secret_resolvedAt :: "timestamp option"
  secret_resolvedBy :: "string option"
  secret_pushProtectionBypassed :: "bool option"

text \<open>The object literal of \<^verbatim>\<open>getDependabotAlerts\<close> (lines 424-432).\<close>

record dependency_alert =
  dep_id :: string
  dep_createdAt :: timestamp
  dep_severity :: string
  dep_package :: string
  dep_ecosystem :: string
  dep_summary :: string
  dep_cvssScore :: "number option"

text \<open>
  \<^verbatim>\<open>calculateRepoMetrics\<close> puts the three collections into one array and reads the
  properties \<^verbatim>\<open>state\<close>, \<^verbatim>\<open>createdAt\<close>, \<^verbatim>\<open>resolvedAt\<close> and \<^verbatim>\<open>dismissedAt\<close> of each element.
  A property that the element's object literal does not set reads as \<^verbatim>\<open>undefined\<close>: \<open>None\<close>.
\<close>

datatype alert = Code code_alert | Secret secret_alert | Dependency dependency_alert

fun alert_state :: "alert \<Rightarrow> string option" where
  "alert_state (Code a) = Some (code_state a)"
| "alert_state (Secret a) = Some (secret_state a)"
| "alert_state (Dependency a) = None"

fun alert_createdAt :: "alert \<Rightarrow> timestamp" where
  "alert_createdAt (Code a) = code_createdAt a"
| "alert_createdAt (Secret a) = secret_createdAt a"
| "alert_createdAt (Dependency a) = dep_createdAt a"

fun alert_resolvedAt :: "alert \<Rightarrow> timestamp option" where
  "alert_resolvedAt (Code a) = None"
| "alert_resolvedAt (Secret a) = secret_resolvedAt a"
| "alert_resolvedAt (Dependency a) = None"

fun alert_dismissedAt :: "alert \<Rightarrow> timestamp option" where
  "alert_dismissedAt (Code a) = None"
| "alert_dismissedAt (Secret a) = None"
| "alert_dismissedAt (Dependency a) = None"

subsection \<open>The result document\<close>

record securityFeatures =
  codeScanning_enabled :: bool
  codeScanning_lastRun :: "timestamp option"
  codeScanning_error :: "string option"
  secretScanning_enabled :: bool
  secretScanning_pushProtection :: bool
  secretScanning_error :: "string option"
  dependabot_enabled :: bool
  dependabot_securityUpdates :: bool
  dependabot_error :: "string option"
  branchProtection_enabled :: bool
  branchProtection_rules :: "string option"

record metrics =
  totalAlerts :: int
  openAlerts :: int
  closedAlerts :: int
  meanTimeToResolve :: number

record repoAudit =
  name :: string
  url :: string
  isPrivate :: bool
  defaultBranch :: string
  lastUpdated :: timestamp
  securityFeatures :: securityFeatures
  alerts_code :: "code_alert list"
  alerts_secret :: "secret_alert list"
  alerts_dependency :: "dependency_alert list"
  metrics :: metrics

record metadata =
  organization :: string
  auditDate :: string
  scope :: string
  version :: string

record summary =
  totalRepositories :: int
  scannedRepositories :: int
  summary_totalAlerts :: int
  criticalAlerts :: int
  highAlerts :: int
  mediumAlerts :: int
  lowAlerts :: int
  secretAlerts :: int
  dependencyAlerts :: int
  codeAlerts :: int

record framework =
  score :: number
  details :: string

record compliance =
  overallScore :: number
  frameworks :: "string \<rightharpoonup> framework"

record results =
  metadata :: metadata
  summary :: summary
  repositories :: "repoAudit list"
  compliance :: compliance

record options =
  opt_scope :: string
  opt_repos :: "string option"

text \<open>
  The \<^verbatim>\<open>GHASAudit\<close> object, together with the lines written by \<^verbatim>\<open>console.warn\<close> so far
  (\<open>warnings\<close>, oldest first).
\<close>

record audit =
  org :: string
  options :: options
  results :: results
  warnings :: "string list"

text \<open>The constructor (lines 58-86); \<open>now\<close> is \<^verbatim>\<open>new Date().toISOString()\<close>.\<close>

definition GHASAudit :: "string \<Rightarrow> options \<Rightarrow> string \<Rightarrow> audit" where
  "GHASAudit org' options' now =
     \<lparr> org = org',
       options = options',
       results = \<lparr>
         metadata = \<lparr> organization = org', auditDate = now, scope = opt_scope options',
                      version = ''1.0.0'' \<rparr>,
         summary = \<lparr> totalRepositories = 0, scannedRepositories = 0, summary_totalAlerts = 0,
                     criticalAlerts = 0, highAlerts = 0, mediumAlerts = 0, lowAlerts = 0,
                     secretAlerts = 0, dependencyAlerts = 0, codeAlerts = 0 \<rparr>,
         repositories = [],
         compliance = \<lparr> overallScore = 0, frameworks = Map.empty \<rparr> \<rparr>,
       warnings = [] \<rparr>"

section \<open>The platform\<close>

text \<open>
  The requests the program sends, as functions of their parameters; the organisation is fixed
  for a run. \<open>Inl\<close> is a rejected promise (the request throws), \<open>Inr\<close> the response data.
  \<^item> \<open>repos_get name\<close>: \<^verbatim>\<open>octokit.repos.get\<close>;
  \<^item> \<open>repos_listForOrg page\<close>: \<^verbatim>\<open>octokit.repos.listForOrg\<close> with \<^verbatim>\<open>per_page: 100\<close>;
  \<^item> \<open>code_scanning_analyses name\<close>: the \<^verbatim>\<open>created_at\<close> of the analyses returned with
    \<^verbatim>\<open>per_page: 1\<close>;
  \<^item> \<open>secret_scanning_probe name\<close>: the secret-scanning request with \<^verbatim>\<open>per_page: 1\<close>;
  \<^item> \<open>repos_details name\<close>: \<^verbatim>\<open>has_vulnerability_alerts\<close> of \<^verbatim>\<open>GET /repos/{owner}/{repo}\<close>;
  \<^item> \<open>repos_getBranchProtection name branch\<close>: the protection rules;
  \<^item> \<open>code_scanning_alerts name page\<close>, \<open>secret_scanning_alerts name page\<close>: one page of
    open alerts, \<^verbatim>\<open>per_page: 100\<close>;
  \<^item> \<open>graphqlWithAuth name cursor\<close>: one page of the \<^verbatim>\<open>vulnerabilityAlerts\<close> query.
\<close>

record env =
  repos_get :: "string \<Rightarrow> http_error + repo"
  repos_listForOrg :: "nat \<Rightarrow> http_error + repo list"
  code_scanning_analyses :: "string \<Rightarrow> http_error + timestamp list"
  secret_scanning_probe :: "string \<Rightarrow> http_error + unit"
  repos_details :: "string \<Rightarrow> http_error + bool option"
  repos_getBranchProtection :: "string \<Rightarrow> string \<Rightarrow> http_error + string"
  code_scanning_alerts :: "string \<Rightarrow> nat \<Rightarrow> http_error + raw_code_alert list"
  secret_scanning_alerts :: "string \<Rightarrow> nat \<Rightarrow> http_error + raw_secret_alert list"
  graphqlWithAuth :: "string \<Rightarrow> string option \<Rightarrow> http_error + vulnerabilityAlerts option"

section \<open>Repository selector: \<^verbatim>\<open>getRepositories\<close> (lines 121-173)\<close>

text \<open>The loop of lines 127-137: one request per name; a failed one is skipped with a warning.\<close>

fun resolve_names :: "env \<Rightarrow> string list \<Rightarrow> repo list \<times> string list" where
  "resolve_names e [] = ([], [])"
| "resolve_names e (repoName # rest) =
     (let (repos, ws) = resolve_names e rest
      in (case repos_get e repoName of
            Inr data \<Rightarrow> (data # repos, ws)
          | Inl error \<Rightarrow> (repos, (''Warning: Could not access repository '' @ repoName) # ws)))"

text \<open>
  The loop of lines 147-158. It ends when a page holds fewer than 100 entries and does not
  end while every page is full: not returning is the value \<open>None\<close>.
\<close>

partial_function (option) listForOrg_loop ::
  "(nat \<Rightarrow> http_error + repo list) \<Rightarrow> nat \<Rightarrow> repo list \<Rightarrow> (http_error + repo list) option"
where
  "listForOrg_loop fetch page repos =
     (case fetch page of
        Inl error \<Rightarrow> Some (Inl error)
      | Inr data \<Rightarrow>
          if length data = 100 then listForOrg_loop fetch (page + 1) (repos @ data)
          else Some (Inr (repos @ data)))"

definition is_critical :: "repo \<Rightarrow> bool" where
  "is_critical r =
     ((case repo_topics r of None \<Rightarrow> False | Some ts \<Rightarrow> ''critical'' \<in> set ts) \<or>
      (case repo_topics r of None \<Rightarrow> False | Some ts \<Rightarrow> ''production'' \<in> set ts) \<or>
      includes_str (repo_name r) ''api'' \<or>
      includes_str (repo_name r) ''auth'')"

text \<open>
  The result is \<open>Inl\<close> when the listing request throws (the run then fails), and otherwise the
  repositories with the warnings written. \<^verbatim>\<open>this.options.repos\<close> is falsy when it is
  absent or the empty string.
\<close>

definition getRepositories :: "env \<Rightarrow> audit \<Rightarrow> (http_error + repo list \<times> string list) option" where
  "getRepositories e a =
     (case opt_repos (options a) of
        Some (c # cs) \<Rightarrow> Some (Inr (resolve_names e (map trim (split_comma (c # cs)))))
      | _ \<Rightarrow>
         (case listForOrg_loop (repos_listForOrg e) 1 [] of
            None \<Rightarrow> None
          | Some (Inl error) \<Rightarrow> Some (Inl error)
          | Some (Inr repos) \<Rightarrow>
              if opt_scope (options a) = ''critical'' then Some (Inr (filter is_critical repos, []))
              else Some (Inr (repos, []))))"

section \<open>Feature prober: \<^verbatim>\<open>getSecurityFeatures\<close> (lines 236-297)\<close>

definition getSecurityFeatures :: "env \<Rightarrow> repo \<Rightarrow> securityFeatures \<times> string list" where
  "getSecurityFeatures e r =
     (let features = \<lparr> codeScanning_enabled = False, codeScanning_lastRun = None,
                        codeScanning_error = None,
                        secretScanning_enabled = False, secretScanning_pushProtection = False,
                        secretScanning_error = None,
                        dependabot_enabled = False, dependabot_securityUpdates = False,
                        dependabot_error = None,
                        branchProtection_enabled = False, branchProtection_rules = None \<rparr>;
          codeScanning = (case code_scanning_analyses e (repo_name r) of
                            Inl error \<Rightarrow> [] | Inr data \<Rightarrow> data);
          features = (case codeScanning of
                        [] \<Rightarrow> features
                      | first # rest \<Rightarrow> features\<lparr> codeScanning_enabled := True,
                                                  codeScanning_lastRun := Some first \<rparr>);
          features = (case secret_scanning_probe e (repo_name r) of
                        Inr ok \<Rightarrow> features\<lparr> secretScanning_enabled := True \<rparr>
                      | Inl error \<Rightarrow>
                          if status error \<noteq> Some 404
                          then features\<lparr> secretScanning_enabled := True \<rparr>
                          else features)
      in (case repos_details e (repo_name r) of
            Inl error \<Rightarrow>
              (features,
               [''Warning: Could not fetch all security features for '' @ repo_name r])
          | Inr has_vulnerability_alerts \<Rightarrow>
              (let features = features\<lparr> dependabot_enabled :=
                                (case has_vulnerability_alerts of
                                   None \<Rightarrow> False | Some b \<Rightarrow> b) \<rparr>;
                   features = (case repos_getBranchProtection e (repo_name r)
                                      (repo_default_branch r) of
                                 Inr protection \<Rightarrow>
                                   features\<lparr> branchProtection_enabled := True,
                                             branchProtection_rules := Some protection \<rparr>
                               | Inl error \<Rightarrow> features)
               in (features, []))))"

section \<open>Alert collector\<close>

text \<open>\<^verbatim>\<open>x || 'unknown'\<close> on a string that may be null: null and the empty string are falsy.\<close>

definition or_unknown :: "string option \<Rightarrow> string" where
  "or_unknown x = (case x of None \<Rightarrow> ''unknown'' | Some s \<Rightarrow> if s = [] then ''unknown'' else s)"

definition map_code_alert :: "raw_code_alert \<Rightarrow> code_alert" where
  "map_code_alert alert =
     \<lparr> code_number = raw_code_number alert,
       code_state = raw_code_state alert,
       code_severity = or_unknown (rule_security_severity_level alert),
       code_rule = rule_id alert,
       code_description = rule_description alert,
       code_path = location_path alert,
       code_createdAt = raw_code_created_at alert,
       code_tool = tool_name alert \<rparr>"

definition map_secret_alert :: "raw_secret_alert \<Rightarrow> secret_alert" where
  "map_secret_alert alert =
     \<lparr> secret_number = raw_secret_number alert,
       secret_state = raw_secret_state alert,
       secret_secretType = secret_type alert,
       secret_secretTypeDisplayName = secret_type_display_name alert,
       secret_createdAt = raw_secret_created_at alert,
       secret_resolvedAt = resolved_at alert,
       secret_resolvedBy = resolved_by_login alert,
       secret_pushProtectionBypassed = push_protection_bypassed alert \<rparr>"

definition map_dependency_alert :: "raw_dependency_alert \<Rightarrow> dependency_alert" where
  "map_dependency_alert alert =
     \<lparr> dep_id = node_id alert,
       dep_createdAt = node_createdAt alert,
       dep_severity = securityVulnerability_severity alert,
       dep_package = package_name alert,
       dep_ecosystem = package_ecosystem alert,
       dep_summary = advisory_summary alert,
       dep_cvssScore = cvss_score alert \<rparr>"

text \<open>
  \<^verbatim>\<open>getCodeScanningAlerts\<close> (lines 299-336). A request that fails ends the loop; the error is
  thrown again unless its status is 404: \<open>Inl\<close> is the thrown error.
\<close>

partial_function (option) getCodeScanningAlerts_loop ::
  "(nat \<Rightarrow> http_error + raw_code_alert list) \<Rightarrow> nat \<Rightarrow> code_alert list
     \<Rightarrow> (http_error + code_alert list) option"
where
  "getCodeScanningAlerts_loop fetch page alerts =
     (case fetch page of
        Inr data \<Rightarrow>
          if length data = 100
          then getCodeScanningAlerts_loop fetch (page + 1) (alerts @ map map_code_alert data)
          else Some (Inr (alerts @ map map_code_alert data))
      | Inl error \<Rightarrow>
          if status error \<noteq> Some 404 then Some (Inl error) else Some (Inr alerts))"

definition getCodeScanningAlerts :: "env \<Rightarrow> repo \<Rightarrow> (http_error + code_alert list) option" where
  "getCodeScanningAlerts e r = getCodeScanningAlerts_loop (code_scanning_alerts e (repo_name r)) 1 []"

text \<open>\<^verbatim>\<open>getSecretScanningAlerts\<close> (lines 338-375): as above, with 403 tolerated as well.\<close>

partial_function (option) getSecretScanningAlerts_loop ::
  "(nat \<Rightarrow> http_error + raw_secret_alert list) \<Rightarrow> nat \<Rightarrow> secret_alert list
     \<Rightarrow> (http_error + secret_alert list) option"
where
  "getSecretScanningAlerts_loop fetch page alerts =
     (case fetch page of
        Inr data \<Rightarrow>
          if length data = 100
          then getSecretScanningAlerts_loop fetch (page + 1) (alerts @ map map_secret_alert data)
          else Some (Inr (alerts @ map map_secret_alert data))
      | Inl error \<Rightarrow>
          if status error \<noteq> Some 404 \<and> status error \<noteq> Some 403 then Some (Inl error)
          else Some (Inr alerts))"

definition getSecretScanningAlerts :: "env \<Rightarrow> repo \<Rightarrow> (http_error + secret_alert list) option" where
  "getSecretScanningAlerts e r =
     getSecretScanningAlerts_loop (secret_scanning_alerts e (repo_name r)) 1 []"

text \<open>
  \<^verbatim>\<open>getDependabotAlerts\<close> (lines 377-446). The \<^verbatim>\<open>try\<close> encloses the whole loop and the
  \<^verbatim>\<open>catch\<close> only writes a warning; \<^verbatim>\<open>alerts\<close> is declared outside and returned after it,
  so the function never throws and returns what the pages fetched so far have added.
\<close>

partial_function (option) getDependabotAlerts_loop ::
  "(string option \<Rightarrow> http_error + vulnerabilityAlerts option) \<Rightarrow> string \<Rightarrow> string option
     \<Rightarrow> dependency_alert list \<Rightarrow> (dependency_alert list \<times> string list) option"
where
  "getDependabotAlerts_loop query repoName cursor alerts =
     (case query cursor of
        Inl error \<Rightarrow>
          Some (alerts,
                [''Warning: Could not fetch Dependabot alerts via GraphQL for '' @ repoName])
      | Inr result \<Rightarrow>
          (case result of
             None \<Rightarrow> Some (alerts, [])
           | Some va \<Rightarrow>
               if pageInfo_hasNextPage va
               then getDependabotAlerts_loop query repoName (pageInfo_endCursor va)
                      (alerts @ map map_dependency_alert (nodes va))
               else Some (alerts @ map map_dependency_alert (nodes va), [])))"

definition getDependabotAlerts :: "env \<Rightarrow> repo \<Rightarrow> (dependency_alert list \<times> string list) option" where
  "getDependabotAlerts e r =
     getDependabotAlerts_loop (graphqlWithAuth e (repo_name r)) (repo_name r) None []"

section \<open>Metrics calculator: \<^verbatim>\<open>calculateRepoMetrics\<close> (lines 448-471)\<close>

definition allAlerts :: "repoAudit \<Rightarrow> alert list" where
  "allAlerts repoAudit =
     map Code (alerts_code repoAudit) @ map Secret (alerts_secret repoAudit) @
     map Dependency (alerts_dependency repoAudit)"

text \<open>The filter of line 456: \<^verbatim>\<open>a.state === 'open' || !a.dismissedAt\<close>.\<close>

definition is_open :: "alert \<Rightarrow> bool" where
  "is_open a = (alert_state a = Some ''open'' \<or> alert_dismissedAt a = None)"

text \<open>\<^verbatim>\<open>a.resolvedAt || a.dismissedAt\<close> (lines 460 and 464).\<close>

definition resolution :: "alert \<Rightarrow> timestamp option" where
  "resolution a = (case alert_resolvedAt a of Some t \<Rightarrow> Some t | None \<Rightarrow> alert_dismissedAt a)"

text \<open>Lines 463-465, for an alert that passed the filter of line 460.\<close>

definition resolutionTime :: "alert \<Rightarrow> number option" where
  "resolutionTime a =
     map_option
       (\<lambda>resolved. fdiv (fsub (of_int resolved) (of_int (alert_createdAt a)))
                         (1000 * 60 * 60 * 24))
       (resolution a)"

definition calculateRepoMetrics :: "repoAudit \<Rightarrow> repoAudit" where
  "calculateRepoMetrics repoAudit =
     (let alerts = allAlerts repoAudit;
          total = int (length alerts);
          opened = int (length (filter is_open alerts));
          m = (metrics repoAudit)\<lparr> totalAlerts := total, openAlerts := opened,
                                   closedAlerts := total - opened \<rparr>;
          resolvedAlerts = filter (\<lambda>a. resolution a \<noteq> None) alerts
      in if length resolvedAlerts > 0
         then (let resolutionTimes = List.map_filter resolutionTime resolvedAlerts
               in repoAudit\<lparr> metrics := m\<lparr> meanTimeToResolve :=
                    fdiv (foldl fadd 0 resolutionTimes) (of_nat (length resolutionTimes)) \<rparr> \<rparr>)
         else repoAudit\<lparr> metrics := m \<rparr>)"

section \<open>Result aggregator: \<^verbatim>\<open>updateSummary\<close> (lines 473-516)\<close>

text \<open>The two \<^verbatim>\<open>switch\<close> statements; a severity that matches no \<^verbatim>\<open>case\<close> counts nowhere.\<close>

definition count_code_severity :: "summary \<Rightarrow> code_alert \<Rightarrow> summary" where
  "count_code_severity s alert =
     (if code_severity alert = ''critical'' then s\<lparr> criticalAlerts := criticalAlerts s + 1 \<rparr>
      else if code_severity alert = ''high'' then s\<lparr> highAlerts := highAlerts s + 1 \<rparr>
      else if code_severity alert = ''medium'' then s\<lparr> mediumAlerts := mediumAlerts s + 1 \<rparr>
      else if code_severity alert = ''low'' then s\<lparr> lowAlerts := lowAlerts s + 1 \<rparr>
      else s)"

definition count_dependency_severity :: "summary \<Rightarrow> dependency_alert \<Rightarrow> summary" where
  "count_dependency_severity s alert =
     (if dep_severity alert = ''CRITICAL'' then s\<lparr> criticalAlerts := criticalAlerts s + 1 \<rparr>
      else if dep_severity alert = ''HIGH'' then s\<lparr> highAlerts := highAlerts s + 1 \<rparr>
      else if dep_severity alert = ''MODERATE'' then s\<lparr> mediumAlerts := mediumAlerts s + 1 \<rparr>
      else if dep_severity alert = ''LOW'' then s\<lparr> lowAlerts := lowAlerts s + 1 \<rparr>
      else s)"

definition updateSummary :: "repoAudit \<Rightarrow> results \<Rightarrow> results" where
  "updateSummary repoAudit res =
     (let s = summary res;
          s = s\<lparr> summary_totalAlerts := summary_totalAlerts s + totalAlerts (metrics repoAudit) \<rparr>;
          s = foldl count_code_severity s (alerts_code repoAudit);
          s = foldl count_dependency_severity s (alerts_dependency repoAudit);
          s = s\<lparr> codeAlerts := codeAlerts s + int (length (alerts_code repoAudit)) \<rparr>;
          s = s\<lparr> secretAlerts := secretAlerts s + int (length (alerts_secret repoAudit)) \<rparr>;
          s = s\<lparr> dependencyAlerts :=
                   dependencyAlerts s + int (length (alerts_dependency repoAudit)) \<rparr>
      in res\<lparr> summary := s \<rparr>)"

section \<open>Compliance scorer (lines 518-675)\<close>

definition calculateOWASPCompliance :: "results \<Rightarrow> number" where
  "calculateOWASPCompliance res =
     (let repos = repositories res;
          score = 0;
          injectionAlerts = foldl (\<lambda>count repo. count +
              int (length (filter (\<lambda>a. includes_str (code_rule a) ''injection'') (alerts_code repo))))
              0 repos;
          score = (if injectionAlerts = 0 then fadd score 10 else score);
          authAlerts = foldl (\<lambda>count repo. count +
              int (length (filter (\<lambda>a. includes_str (code_rule a) ''auth'') (alerts_code repo))))
              0 repos;
          score = (if authAlerts = 0 then fadd score 10 else score);
          score = (if secretAlerts (summary res) = 0 then fadd score 20 else score);
          configAlerts = foldl (\<lambda>count repo. count +
              int (length (filter (\<lambda>a. includes_str (code_rule a) ''config'') (alerts_code repo))))
              0 repos;
          score = (if configAlerts = 0 then fadd score 10 else score);
          score = (if dependencyAlerts (summary res) < 5 then fadd score 20
                   else if dependencyAlerts (summary res) < 20 then fadd score 10
                   else score);
          scanningEnabled = length (filter (\<lambda>r. codeScanning_enabled (securityFeatures r)) repos);
          score = fadd score (fmul (fdiv (of_nat scanningEnabled) (of_nat (length repos))) 30)
      in min score 100)"

definition calculateNISTCompliance :: "results \<Rightarrow> number" where
  "calculateNISTCompliance res =
     (let repos = repositories res;
          score = 0;
          score = fadd score 20;
          protectedRepos = length (filter (\<lambda>r. branchProtection_enabled (securityFeatures r)) repos);
          score = fadd score (fmul (fdiv (of_nat protectedRepos) (of_nat (length repos))) 20);
          monitoredRepos = length (filter (\<lambda>r.
              codeScanning_enabled (securityFeatures r) \<or>
              secretScanning_enabled (securityFeatures r) \<or>
              dependabot_enabled (securityFeatures r)) repos);
          score = fadd score (fmul (fdiv (of_nat monitoredRepos) (of_nat (length repos))) 20);
          avgResponseTime =
            fdiv (foldl (\<lambda>sum repo. fadd sum (meanTimeToResolve (metrics repo))) 0 repos)
                 (of_nat (length repos));
          score = (if avgResponseTime < 7 then fadd score 20
                   else if avgResponseTime < 30 then fadd score 10
                   else score);
          score = fadd score 20
      in min score 100)"

definition calculateISOCompliance :: "results \<Rightarrow> number" where
  "calculateISOCompliance res =
     (let repos = repositories res;
          score = 0;
          vulnMgmt = length (filter (\<lambda>r. dependabot_enabled (securityFeatures r)) repos);
          score = fadd score (fmul (fdiv (of_nat vulnMgmt) (of_nat (length repos))) 25);
          secDev = length (filter (\<lambda>r. codeScanning_enabled (securityFeatures r)) repos);
          score = fadd score (fmul (fdiv (of_nat secDev) (of_nat (length repos))) 25);
          secretMgmt = length (filter (\<lambda>r. secretScanning_enabled (securityFeatures r)) repos);
          score = fadd score (fmul (fdiv (of_nat secretMgmt) (of_nat (length repos))) 25);
          score = fadd score 25
      in min score 100)"

record scores =
  scanning :: number
  protection :: number
  resolution_score :: number

text \<open>The body of the \<^verbatim>\<open>forEach\<close> of lines 531-547.\<close>

definition score_repo :: "scores \<Rightarrow> repoAudit \<Rightarrow> scores" where
  "score_repo s repo =
     (let f = securityFeatures repo;
          s = (if codeScanning_enabled f
               then s\<lparr> scanning := fadd (scanning s) (fl (33 / 100)) \<rparr> else s);
          s = (if secretScanning_enabled f
               then s\<lparr> scanning := fadd (scanning s) (fl (33 / 100)) \<rparr> else s);
          s = (if dependabot_enabled f
               then s\<lparr> scanning := fadd (scanning s) (fl (34 / 100)) \<rparr> else s);
          s = (if branchProtection_enabled f
               then s\<lparr> protection := fadd (protection s) (fl (1 / 2)) \<rparr> else s);
          s = (if secretScanning_pushProtection f
               then s\<lparr> protection := fadd (protection s) (fl (1 / 2)) \<rparr> else s)
      in if totalAlerts (metrics repo) > 0
         then s\<lparr> resolution_score := fadd (resolution_score s)
                  (fdiv (of_int (closedAlerts (metrics repo)))
                        (of_int (totalAlerts (metrics repo)))) \<rparr>
         else s\<lparr> resolution_score := fadd (resolution_score s) 1 \<rparr>)"

definition calculateCompliance :: "results \<Rightarrow> results" where
  "calculateCompliance res =
     (let repos = repositories res;
          totalRepos = length repos
      in if totalRepos = 0 then res
         else (let s = foldl score_repo \<lparr> scanning = 0, protection = 0, resolution_score = 0 \<rparr> repos;
                   s = \<lparr> scanning = fmul (fdiv (scanning s) (of_nat totalRepos)) 100,
                         protection = fmul (fdiv (protection s) (of_nat totalRepos)) 100,
                         resolution_score =
                           fmul (fdiv (resolution_score s) (of_nat totalRepos)) 100 \<rparr>
               in res\<lparr> compliance :=
                    \<lparr> overallScore =
                        fdiv (fadd (fadd (scanning s) (protection s)) (resolution_score s)) 3,
                      frameworks =
                        [''OWASP'' \<mapsto> \<lparr> score = calculateOWASPCompliance res,
                                        details = ''Based on OWASP Top 10 coverage'' \<rparr>,
                         ''NIST'' \<mapsto> \<lparr> score = calculateNISTCompliance res,
                                       details = ''Based on NIST Cybersecurity Framework'' \<rparr>,
                         ''ISO27001'' \<mapsto> \<lparr> score = calculateISOCompliance res,
                                           details = ''Based on ISO 27001 controls'' \<rparr>] \<rparr> \<rparr>))"

section \<open>One repository and the whole run\<close>

text \<open>
  Lines 220-227 of \<^verbatim>\<open>auditRepository\<close>: the metrics, the summary, the append to
  \<^verbatim>\<open>results.repositories\<close> and the counter of scanned repositories.
\<close>

definition record_repoAudit :: "repoAudit \<Rightarrow> results \<Rightarrow> results" where
  "record_repoAudit repoAudit res =
     (let repoAudit = calculateRepoMetrics repoAudit;
          res = updateSummary repoAudit res;
          res = res\<lparr> repositories := repositories res @ [repoAudit] \<rparr>
      in res\<lparr> summary := (summary res)\<lparr> scannedRepositories :=
                                          scannedRepositories (summary res) + 1 \<rparr> \<rparr>)"

text \<open>
  \<^verbatim>\<open>auditRepository\<close> (lines 175-234). A collector that throws leaves its collection as
  initialised (empty) and annotates the feature with the error's message. \<open>None\<close>: one of the
  pagination loops does not end.
\<close>

definition auditRepository :: "env \<Rightarrow> repo \<Rightarrow> audit \<Rightarrow> audit option" where
  "auditRepository e r a =
     (case getSecurityFeatures e r of (features, ws1) \<Rightarrow>
      (let repoAudit = \<lparr> name = repo_name r, url = repo_html_url r, isPrivate = repo_private r,
                          defaultBranch = repo_default_branch r, lastUpdated = repo_updated_at r,
                          securityFeatures = features,
                          alerts_code = [], alerts_secret = [], alerts_dependency = [],
                          metrics = \<lparr> totalAlerts = 0, openAlerts = 0, closedAlerts = 0,
                                      meanTimeToResolve = 0 \<rparr> \<rparr>
       in (case getCodeScanningAlerts e r of
             None \<Rightarrow> None
           | Some code \<Rightarrow>
         (let repoAudit = (case code of
                 Inr alerts \<Rightarrow> repoAudit\<lparr> alerts_code := alerts \<rparr>
               | Inl error \<Rightarrow> repoAudit\<lparr> securityFeatures :=
                   (securityFeatures repoAudit)\<lparr> codeScanning_error := Some (message error) \<rparr> \<rparr>)
          in (case getSecretScanningAlerts e r of
                None \<Rightarrow> None
              | Some secret \<Rightarrow>
            (let repoAudit = (case secret of
                    Inr alerts \<Rightarrow> repoAudit\<lparr> alerts_secret := alerts \<rparr>
                  | Inl error \<Rightarrow> repoAudit\<lparr> securityFeatures :=
                      (securityFeatures repoAudit)\<lparr> secretScanning_error := Some (message error) \<rparr> \<rparr>)
             in (case getDependabotAlerts e r of
                   None \<Rightarrow> None
                 | Some (alerts, ws2) \<Rightarrow>
                     Some (a\<lparr> results := record_repoAudit
                                            (repoAudit\<lparr> alerts_dependency := alerts \<rparr>) (results a),
                              warnings := warnings a @ ws1 @ ws2 \<rparr>))))))))"

text \<open>The loop of lines 101-103.\<close>

fun auditAll :: "env \<Rightarrow> repo list \<Rightarrow> audit \<Rightarrow> audit option" where
  "auditAll e [] a = Some a"
| "auditAll e (r # rs) a =
     (case auditRepository e r a of None \<Rightarrow> None | Some a' \<Rightarrow> auditAll e rs a')"

text \<open>
  \<^verbatim>\<open>run\<close> (lines 88-119) up to and including the compliance scores. \<open>Inl\<close>: the listing
  request threw and the run failed before any repository was processed.
\<close>

definition run :: "env \<Rightarrow> audit \<Rightarrow> (http_error + audit) option" where
  "run e a =
     (case getRepositories e a of
        None \<Rightarrow> None
      | Some (Inl error) \<Rightarrow> Some (Inl error)
      | Some (Inr (repos, ws)) \<Rightarrow>
          (let a = a\<lparr> warnings := warnings a @ ws,
                      results := (results a)\<lparr> summary :=
                        (summary (results a))\<lparr> totalRepositories := int (length repos) \<rparr> \<rparr> \<rparr>
           in (case auditAll e repos a of
                 None \<Rightarrow> None
               | Some a \<Rightarrow> Some (Inr (a\<lparr> results := calculateCompliance (results a) \<rparr>)))))"

section \<open>The vocabulary of the claims\<close>

text \<open>
  The mean time to resolve in the words of the specification: the average, over the alerts
  that carry a resolution timestamp (\<^verbatim>\<open>resolvedAt\<close> or \<^verbatim>\<open>dismissedAt\<close>), of the resolution
  timestamp minus the creation timestamp, in days; 0 when no alert carries one. The average
  is the one of binary64 arithmetic: the sum is accumulated from the left.
\<close>

definition carries_resolution :: "alert \<Rightarrow> bool" where
  "carries_resolution a =
     (case alert_resolvedAt a of
        Some t \<Rightarrow> True
      | None \<Rightarrow> (case alert_dismissedAt a of Some t \<Rightarrow> True | None \<Rightarrow> False))"

definition days_between :: "timestamp \<Rightarrow> timestamp \<Rightarrow> number" where
  "days_between created resolved = fdiv (fsub (of_int resolved) (of_int created)) 86400000"

definition days_to_resolve :: "alert \<Rightarrow> number" where
  "days_to_resolve a =
     (case alert_resolvedAt a of
        Some t \<Rightarrow> days_between (alert_createdAt a) t
      | None \<Rightarrow> (case alert_dismissedAt a of
                    Some t \<Rightarrow> days_between (alert_createdAt a) t
                  | None \<Rightarrow> 0))"

definition average :: "number list \<Rightarrow> number" where
  "average xs = fdiv (foldl fadd 0 xs) (of_nat (length xs))"

definition spec_meanTimeToResolve :: "alert list \<Rightarrow> number" where
  "spec_meanTimeToResolve alerts =
     (let resolved = filter carries_resolution alerts
      in if resolved = [] then 0 else average (map days_to_resolve resolved))"

text \<open>The repository that a requested name resolves to, if the request succeeds.\<close>

definition resolves :: "env \<Rightarrow> string \<Rightarrow> repo option" where
  "resolves e repoName =
     (case repos_get e repoName of Inr data \<Rightarrow> Some data | Inl error \<Rightarrow> None)"

text \<open>
  The entries of a list of repositories recorded one after the other, as the loop of lines
  101-103 does once the alerts of each have been collected.
\<close>

definition record_all :: "repoAudit list \<Rightarrow> results \<Rightarrow> results" where
  "record_all rs res = foldl (\<lambda>res r. record_repoAudit r res) res rs"

section \<open>Concrete inputs\<close>

text \<open>The records that the witnesses and counterexamples below evaluate the program on.\<close>

definition fresh_metrics :: metrics where
  "fresh_metrics = \<lparr> totalAlerts = 0, openAlerts = 0, closedAlerts = 0, meanTimeToResolve = 0 \<rparr>"

definition no_features :: securityFeatures where
  "no_features =
     \<lparr> codeScanning_enabled = False, codeScanning_lastRun = None, codeScanning_error = None,
       secretScanning_enabled = False, secretScanning_pushProtection = False,
       secretScanning_error = None,
       dependabot_enabled = False, dependabot_securityUpdates = False, dependabot_error = None,
       branchProtection_enabled = False, branchProtection_rules = None \<rparr>"

text \<open>A repository entry as \<^verbatim>\<open>auditRepository\<close> initialises it (lines 179-197).\<close>

definition blank_repoAudit :: repoAudit where
  "blank_repoAudit =
     \<lparr> name = ''payment-api'', url = ''https://example.org/payment-api'', isPrivate = False,
       defaultBranch = ''main'', lastUpdated = 0, securityFeatures = no_features,
       alerts_code = [], alerts_secret = [], alerts_dependency = [], metrics = fresh_metrics \<rparr>"

text \<open>A secret alert that was resolved five days after its creation.\<close>

definition resolved_secret :: secret_alert where
  "resolved_secret =
     \<lparr> secret_number = 7, secret_state = ''resolved'', secret_secretType = ''github_token'',
       secret_secretTypeDisplayName = ''GitHub Token'', secret_createdAt = 0,
       secret_resolvedAt = Some 432000000, secret_resolvedBy = Some ''octocat'',
       secret_pushProtectionBypassed = Some False \<rparr>"

text \<open>Code alerts with the severities of the specification's mixed scenario.\<close>

definition raw_with_severity :: "string \<Rightarrow> raw_code_alert" where
  "raw_with_severity s =
     \<lparr> raw_code_number = 1, raw_code_state = ''open'', rule_security_severity_level = Some s,
       rule_id = ''js/sql-injection'',
       rule_description = ''Database query built from user-controlled sources'',
       location_path = Some ''server.js'', raw_code_created_at = 0, tool_name = ''CodeQL'' \<rparr>"

definition mixed_severities :: "raw_code_alert list" where
  "mixed_severities =
     map raw_with_severity [''critical'', ''HIGH'', ''Medium'', ''low'', ''unknown-string'']"

definition acme_options :: options where
  "acme_options = \<lparr> opt_scope = ''all'', opt_repos = None \<rparr>"

definition acme_audit :: audit where
  "acme_audit = GHASAudit ''acme'' acme_options ''2025-06-30T00:00:00.000Z''"

definition not_found :: http_error where
  "not_found = \<lparr> status = Some 404, message = ''Not Found'' \<rparr>"

definition bad_gateway :: http_error where
  "bad_gateway = \<lparr> status = Some 502, message = ''Bad Gateway'' \<rparr>"

definition payment_api :: repo where
  "payment_api =
     \<lparr> repo_name = ''payment-api'', repo_html_url = ''https://example.org/acme/payment-api'',
       repo_private = True, repo_default_branch = ''main'', repo_updated_at = 0,
       repo_topics = Some [''production''] \<rparr>"

text \<open>An organisation with no repository, on which nothing is enabled.\<close>

definition empty_org :: env where
  "empty_org =
     \<lparr> repos_get = (\<lambda>repoName. Inl not_found),
       repos_listForOrg = (\<lambda>page. Inr []),
       code_scanning_analyses = (\<lambda>repoName. Inr []),
       secret_scanning_probe = (\<lambda>repoName. Inl not_found),
       repos_details = (\<lambda>repoName. Inr (Some False)),
       repos_getBranchProtection = (\<lambda>repoName branch. Inl not_found),
       code_scanning_alerts = (\<lambda>repoName page. Inr []),
       secret_scanning_alerts = (\<lambda>repoName page. Inr []),
       graphqlWithAuth = (\<lambda>repoName cursor. Inr None) \<rparr>"

text \<open>An organisation whose only repository is \<open>payment_api\<close>.\<close>

definition one_repo_org :: env where
  "one_repo_org =
     empty_org\<lparr> repos_get := (\<lambda>repoName. if repoName = ''payment-api'' then Inr payment_api
                                          else Inl not_found),
                repos_listForOrg := (\<lambda>page. if page = 1 then Inr [payment_api] else Inr []) \<rparr>"

definition twice_options :: options where
  "twice_options = \<lparr> opt_scope = ''custom'', opt_repos = Some ''payment-api, payment-api'' \<rparr>"

text \<open>
  A name list that repeats a name around one that does not resolve; the second name follows
  a no-break space (U+00A0) and is followed by a space.
\<close>

definition repeat_options :: options where
  "repeat_options =
     \<lparr> opt_scope = ''custom'',
       opt_repos = Some (''payment-api,'' @ [CHR 0xC2, CHR 0xA0] @ ''ghost , payment-api'') \<rparr>"


definition sql_injection :: raw_code_alert where
  "sql_injection =
     \<lparr> raw_code_number = 1, raw_code_state = ''open'',
       rule_security_severity_level = Some ''high'', rule_id = ''js/sql-injection'',
       rule_description = ''Database query built from user-controlled sources'',
       location_path = Some ''server.js'', raw_code_created_at = 0, tool_name = ''CodeQL'' \<rparr>"

definition leaked_token :: raw_secret_alert where
  "leaked_token =
     \<lparr> raw_secret_number = 2, raw_secret_state = ''open'', secret_type = ''github_token'',
       secret_type_display_name = ''GitHub Token'', raw_secret_created_at = 0,
       resolved_at = None, resolved_by_login = None, push_protection_bypassed = Some False \<rparr>"

definition lodash_advisory :: raw_dependency_alert where
  "lodash_advisory =
     \<lparr> node_id = ''RVA_1'', node_createdAt = 0, node_dismissedAt = None,
       securityVulnerability_severity = ''HIGH'', package_name = ''lodash'',
       package_ecosystem = ''NPM'', advisory_summary = ''Prototype pollution in lodash'',
       advisory_description = ''Prototype pollution'', cvss_score = Some 7 \<rparr>"

text \<open>
  \<open>payment_api\<close> with one code alert, one secret alert, and a dependency query whose first
  page holds one alert and announces a second page, the request for which fails.
\<close>

definition flaky_dependabot_org :: env where
  "flaky_dependabot_org =
     one_repo_org\<lparr>
       code_scanning_alerts := (\<lambda>repoName page. if page = 1 then Inr [sql_injection] else Inr []),
       secret_scanning_alerts := (\<lambda>repoName page. if page = 1 then Inr [leaked_token] else Inr []),
       graphqlWithAuth := (\<lambda>repoName cursor.
          if cursor = None
          then Inr (Some \<lparr> nodes = [lodash_advisory], pageInfo_hasNextPage = True,
                            pageInfo_endCursor = Some ''Y3Vyc29yOjE='' \<rparr>)
          else Inl bad_gateway) \<rparr>"

text \<open>
  Five repositories without alerts that differ in the scanning features enabled, written
  for code scanning, secret scanning and dependency alerts in this order.
\<close>

definition repo_with :: "bool \<Rightarrow> bool \<Rightarrow> bool \<Rightarrow> repoAudit" where
  "repo_with c s d =
     blank_repoAudit\<lparr> securityFeatures :=
       no_features\<lparr> codeScanning_enabled := c, secretScanning_enabled := s,
                     dependabot_enabled := d \<rparr> \<rparr>"

definition five_repos :: "repoAudit list" where
  "five_repos =
     [repo_with False False False, repo_with False False True, repo_with False True True,
      repo_with True True True, repo_with True True True]"

text \<open>A repository whose only alert is a secret alert resolved \<open>ms\<close> milliseconds after its creation.\<close>

definition resolved_after :: "int \<Rightarrow> repoAudit" where
  "resolved_after ms =
     blank_repoAudit\<lparr> alerts_secret := [resolved_secret\<lparr> secret_resolvedAt := Some ms \<rparr>] \<rparr>"

section \<open>Facts about rounding\<close>

lemma two_pow_pos [simp]: "0 < two_pow e"
  by (simp add: two_pow_def)

lemma two_pow_neq0 [simp]: "two_pow e \<noteq> 0"
  by (simp add: two_pow_def)

lemma two_pow_add: "two_pow (a + b) = two_pow a * two_pow b"
proof -
  have "two_pow e = 2 powi e" for e
    by (simp add: two_pow_def power_int_def field_simps)
  then show ?thesis by (simp add: power_int_add)
qed

lemma two_pow_diff: "two_pow (a - b) = two_pow a / two_pow b"
  using two_pow_add [of "a - b" b] by (simp add: field_simps)

lemma two_pow_nat: "0 \<le> e \<Longrightarrow> two_pow e = of_int (2 ^ nat e)"
  by (simp add: two_pow_def)

lemma two_pow_mono: "a \<le> b \<Longrightarrow> two_pow a \<le> two_pow b"
proof -
  assume "a \<le> b"
  then have "two_pow b = two_pow a * two_pow (b - a)"
    using two_pow_add [of a "b - a"] by simp
  moreover have "1 \<le> two_pow (b - a)" using \<open>a \<le> b\<close> by (simp add: two_pow_def)
  ultimately show ?thesis
    using mult_left_mono [of 1 "two_pow (b - a)" "two_pow a"] two_pow_pos [of a] by simp
qed

lemma bitlen_nonneg: "0 \<le> bitlen n"
proof (induction n rule: bitlen.induct)
  case (1 n)
  show ?case
  proof (cases "n \<le> 0")
    case True
    then show ?thesis by (subst bitlen.simps) simp
  next
    case False
    with 1 have "0 \<le> bitlen (n div 2)" by simp
    with False show ?thesis by (subst bitlen.simps) simp
  qed
qed

lemma bitlen_pos: "0 < n \<Longrightarrow> 0 < bitlen n"
  using bitlen_nonneg [of "n div 2"] by (subst bitlen.simps) simp

lemma bitlen_bounds:
  "0 < n \<Longrightarrow> two_pow (bitlen n - 1) \<le> of_int n \<and> of_int n < two_pow (bitlen n)"
proof (induction n rule: bitlen.induct)
  case (1 n)
  show ?case
  proof (cases "n = 1")
    case True
    then show ?thesis by (simp add: bitlen.simps two_pow_def)
  next
    case False
    with 1 have pos: "0 < n div 2" by simp
    have ih: "two_pow (bitlen (n div 2) - 1) \<le> of_int (n div 2)"
             "(of_int (n div 2) :: rat) < two_pow (bitlen (n div 2))"
      using 1 pos by simp_all
    have bl: "bitlen n = 1 + bitlen (n div 2)"
      using 1(2) by (subst bitlen.simps) simp
    have blpos: "0 < bitlen (n div 2)" using pos by (rule bitlen_pos)
    have lo: "2 * (n div 2) \<le> n" by simp
    have hi: "n < 2 * (n div 2 + 1)" by simp
    have "two_pow (bitlen n - 1) = 2 * two_pow (bitlen (n div 2) - 1)"
      using two_pow_add [of 1 "bitlen (n div 2) - 1"] by (simp add: bl two_pow_def)
    also have "\<dots> \<le> 2 * of_int (n div 2)" using ih(1) by simp
    also have "\<dots> \<le> of_int n" using lo by (metis of_int_le_iff of_int_mult of_int_numeral)
    finally have A: "two_pow (bitlen n - 1) \<le> of_int n" .
    obtain k where k: "bitlen (n div 2) = int k" using blpos by (metis nat_0_le order_less_imp_le)
    have "(of_int (n div 2) :: rat) < 2 ^ k" using ih(2) by (simp add: k two_pow_def)
    then have "n div 2 < 2 ^ k" by (metis of_int_less_iff of_int_numeral of_int_power)
    then have "n div 2 + 1 \<le> 2 ^ k" by simp
    then have "n < 2 * 2 ^ k" using hi by linarith
    then have "(of_int n :: rat) < 2 * 2 ^ k" by (metis of_int_less_iff of_int_numeral of_int_power of_int_mult)
    moreover have "two_pow (bitlen n) = 2 * 2 ^ k" by (simp add: bl k two_pow_def nat_add_distrib)
    ultimately show ?thesis using A by simp
  qed
qed


lemma ilog2_le:
  assumes "0 < x"
  shows "two_pow (ilog2 x) \<le> x"
proof -
  obtain p q where pq: "quotient_of x = (p, q)" by (cases "quotient_of x")
  have q: "0 < q" using pq quotient_of_denom_pos by blast
  have x: "x = of_int p / of_int q" using pq by (rule quotient_of_div)
  have p: "0 < p" using assms q x by (simp add: zero_less_divide_iff)
  define k where "k = bitlen p - bitlen q"
  show ?thesis
  proof (cases "two_pow k \<le> x")
    case True
    then show ?thesis by (simp add: ilog2_def pq k_def Let_def)
  next
    case False
    then have il: "ilog2 x = k - 1" by (simp add: ilog2_def pq k_def Let_def)
    have "two_pow (k - 1) = two_pow (bitlen p - 1) / two_pow (bitlen q)"
      using two_pow_diff [of "bitlen p - 1" "bitlen q"] by (simp add: k_def algebra_simps)
    also have "\<dots> \<le> of_int p / two_pow (bitlen q)"
      using bitlen_bounds [OF p] by (intro divide_right_mono) (simp_all add: less_imp_le)
    also have "\<dots> \<le> of_int p / of_int q"
      using bitlen_bounds [OF q] p q by (simp add: frac_le)
    also have "\<dots> = x" by (simp only: x)
    finally show ?thesis by (simp only: il)
  qed
qed

lemma round_half_even_le:
  assumes "y \<le> of_int n"
  shows "round_half_even y \<le> n"
proof -
  have f: "\<lfloor>y\<rfloor> \<le> n" using assms by (simp add: floor_le_iff) 
  show ?thesis
  proof (cases "\<lfloor>y\<rfloor> = n")
    case True
    then have "y = of_int n" using assms of_int_floor_le [of y] by simp
    then show ?thesis by (simp add: round_half_even_def)
  next
    case False
    with f have "\<lfloor>y\<rfloor> + 1 \<le> n" by simp
    then show ?thesis by (simp add: round_half_even_def Let_def)
  qed
qed

lemma round_half_even_ge:
  assumes "of_int n \<le> y"
  shows "n \<le> round_half_even y"
proof -
  have "n \<le> \<lfloor>y\<rfloor>" using assms by (simp add: le_floor_iff)
  then show ?thesis by (simp add: round_half_even_def Let_def)
qed

lemma fl_nonneg:
  assumes "0 \<le> x"
  shows "0 \<le> fl x"
proof (cases "x = 0")
  case True
  then show ?thesis by (simp add: fl_def)
next
  case False
  have "0 \<le> round_half_even (x / two_pow e)" for e
    using assms by (intro round_half_even_ge) (simp add: two_pow_pos less_imp_le)
  then show ?thesis using False by (simp add: fl_def Let_def two_pow_pos less_imp_le)
qed

lemma fl_nonpos:
  assumes "x \<le> 0"
  shows "fl x \<le> 0"
proof (cases "x = 0")
  case True
  then show ?thesis by (simp add: fl_def)
next
  case False
  have "round_half_even (x / two_pow e) \<le> 0" for e
    using assms by (intro round_half_even_le) (simp add: divide_le_0_iff less_imp_le)
  then show ?thesis
    using False by (simp add: fl_def Let_def mult_le_0_iff less_imp_le)
qed

text \<open>A value with at most 53 significant bits bounds the rounding of everything below it.\<close>

lemma fl_le:
  assumes xc: "x \<le> of_int m * two_pow g" and m: "0 \<le> m" "m \<le> 2 ^ 53"
  shows "fl x \<le> of_int m * two_pow g"
proof (cases "x \<le> 0")
  case True
  have "0 \<le> of_int m * two_pow g" using m by (simp add: less_imp_le)
  with fl_nonpos [OF True] show ?thesis by simp
next
  case False
  then have pos: "0 < x" by simp
  define e where "e = ilog2 \<bar>x\<bar> - 52"
  define y where "y = x / two_pow e"
  have flx: "fl x = of_int (round_half_even y) * two_pow e"
    using pos by (simp add: fl_def e_def y_def Let_def)
  have "two_pow (e + 52) \<le> x" using ilog2_le [OF pos] pos by (simp add: e_def)
  then have "two_pow 52 * two_pow e \<le> x" by (simp add: two_pow_add mult.commute)
  then have ylo: "two_pow 52 \<le> y" by (simp add: y_def pos_le_divide_eq)
  have yc: "y \<le> of_int m * two_pow (g - e)"
    using xc by (simp add: y_def two_pow_diff divide_right_mono less_imp_le)
  have "\<exists>n. of_int m * two_pow (g - e) = of_int n"
  proof (cases "e \<le> g")
    case True
    then show ?thesis
      by (metis two_pow_nat of_int_mult diff_ge_0_iff_ge)
  next
    case False
    then have "g - e \<le> - 1" by simp
    then have "two_pow (g - e) \<le> two_pow (- 1)" by (rule two_pow_mono)
    then have h: "two_pow (g - e) \<le> 1 / 2" by (simp add: two_pow_def)
    have m': "(of_int m :: rat) \<le> 2 ^ 53" using m(2) by (metis of_int_le_iff of_int_numeral of_int_power)
    have m0: "(0::rat) \<le> of_int m" using m(1) by simp
    have "of_int m * two_pow (g - e) \<le> 2 ^ 53 * (1 / 2)"
      using mult_mono [OF m' h] m0 by (simp add: less_imp_le)
    then have "of_int m * two_pow (g - e) \<le> two_pow 52" by (simp add: two_pow_def)
    with ylo yc have "of_int m * two_pow (g - e) = two_pow 52" by simp
    then show ?thesis by (metis two_pow_nat of_int_numeral of_int_power zero_le_numeral)
  qed
  then obtain n where n: "of_int m * two_pow (g - e) = of_int n" ..
  have "round_half_even y \<le> n" using yc n by (intro round_half_even_le) simp
  then have "of_int (round_half_even y) * two_pow e \<le> of_int n * two_pow e"
    by (simp add: less_imp_le)
  also have "\<dots> = of_int m * two_pow g"
    using n [symmetric] by (simp add: two_pow_diff)
  finally show ?thesis by (simp add: flx)
qed

lemma two_pow_strict_mono: "a < b \<Longrightarrow> two_pow a < two_pow b"
proof -
  assume "a < b"
  then have "two_pow b = two_pow a * two_pow (b - a)"
    using two_pow_add [of a "b - a"] by simp
  moreover have "1 < two_pow (b - a)"
    using \<open>a < b\<close> by (simp add: two_pow_def)
  ultimately show ?thesis
    using mult_strict_left_mono [of 1 "two_pow (b - a)" "two_pow a"] two_pow_pos [of a] by simp
qed

lemma ilog2_less:
  assumes "0 < x"
  shows "x < two_pow (ilog2 x + 1)"
proof -
  obtain p q where pq: "quotient_of x = (p, q)" by (cases "quotient_of x")
  have q: "0 < q" using pq quotient_of_denom_pos by blast
  have x: "x = of_int p / of_int q" using pq by (rule quotient_of_div)
  have p: "0 < p" using assms q x by (simp add: zero_less_divide_iff)
  define k where "k = bitlen p - bitlen q"
  have "x = of_int p / of_int q" by (rule x)
  also have "\<dots> < two_pow (bitlen p) / of_int q"
    using bitlen_bounds [OF p] q by (simp add: divide_strict_right_mono)
  also have "\<dots> \<le> two_pow (bitlen p) / two_pow (bitlen q - 1)"
    using bitlen_bounds [OF q] q by (intro divide_left_mono) (simp_all add: less_imp_le)
  also have "\<dots> = two_pow (k + 1)"
    using two_pow_diff [of "bitlen p" "bitlen q - 1"] by (simp add: k_def algebra_simps)
  finally have up: "x < two_pow (k + 1)" .
  show ?thesis
  proof (cases "two_pow k \<le> x")
    case True
    then have "ilog2 x = k" by (simp add: ilog2_def pq k_def Let_def)
    then show ?thesis using up by simp
  next
    case False
    then have "ilog2 x = k - 1" by (simp add: ilog2_def pq k_def Let_def)
    then show ?thesis using False by simp
  qed
qed

lemma ilog2_eqI:
  assumes "two_pow k \<le> x" "x < two_pow (k + 1)"
  shows "ilog2 x = k"
proof -
  have pos: "0 < x" by (rule less_le_trans [OF two_pow_pos assms(1)])
  have "two_pow (ilog2 x) < two_pow (k + 1)"
    using ilog2_le [OF pos] assms(2) by simp
  then have a: "ilog2 x < k + 1"
    using two_pow_mono [of "k + 1" "ilog2 x"] by (cases "ilog2 x < k + 1") simp_all
  have "two_pow k < two_pow (ilog2 x + 1)"
    using ilog2_less [OF pos] assms(1) by simp
  then have b: "k < ilog2 x + 1"
    using two_pow_mono [of "ilog2 x + 1" k] by (cases "k < ilog2 x + 1") simp_all
  from a b show ?thesis by simp
qed

lemma round_half_even_eqI:
  assumes "\<bar>y - of_int m\<bar> < 1 / 2"
  shows "round_half_even y = m"
proof (cases "of_int m \<le> y")
  case True
  then have f: "\<lfloor>y\<rfloor> = m" using assms by (simp add: floor_eq_iff abs_less_iff)
  then show ?thesis using assms True by (simp add: round_half_even_def abs_less_iff)
next
  case False
  then have f: "\<lfloor>y\<rfloor> = m - 1" using assms by (simp add: floor_eq_iff abs_less_iff)
  then show ?thesis using assms False by (simp add: round_half_even_def abs_less_iff)
qed

lemma round_half_even_tie:
  assumes "\<bar>y - of_int m\<bar> = 1 / 2" "even m"
  shows "round_half_even y = m"
proof (cases "of_int m \<le> y")
  case True
  then have y: "y = of_int m + 1 / 2" using assms(1) by (simp add: abs_if split: if_splits)
  then have f: "\<lfloor>y\<rfloor> = m" by (simp add: floor_eq_iff)
  then show ?thesis using y assms(2) by (simp add: round_half_even_def)
next
  case False
  then have y: "y = of_int m - 1 / 2" using assms(1) by (simp add: abs_if split: if_splits)
  then have f: "\<lfloor>y\<rfloor> = m - 1" by (simp add: floor_eq_iff)
  then show ?thesis using y assms(2) by (simp add: round_half_even_def)
qed

text \<open>Checking a rounding: \<open>m\<close> is the significand and \<open>e\<close> the exponent of the result.\<close>

lemma fl_eqI:
  assumes "two_pow (e + 52) \<le> \<bar>x\<bar>" "\<bar>x\<bar> < two_pow (e + 53)"
    and "\<bar>x / two_pow e - of_int m\<bar> < 1 / 2 \<or> (\<bar>x / two_pow e - of_int m\<bar> = 1 / 2 \<and> even m)"
  shows "fl x = of_int m * two_pow e"
proof -
  have "0 < \<bar>x\<bar>" by (rule less_le_trans [OF two_pow_pos assms(1)])
  then have nz: "x \<noteq> 0" by simp
  have "ilog2 \<bar>x\<bar> = e + 52" using assms(1,2) by (intro ilog2_eqI) (simp_all add: add.commute)
  moreover have "round_half_even (x / two_pow e) = m"
    using assms(3) round_half_even_eqI round_half_even_tie by blast
  ultimately show ?thesis using nz by (simp add: fl_def Let_def)
qed

lemma round_half_even_of_int: "round_half_even (of_int k) = k"
  by (simp add: round_half_even_def)

text \<open>Integers below \<open>2^53\<close> are doubles.\<close>

lemma fl_of_int:
  assumes "\<bar>n\<bar> < 2 ^ 53"
  shows "fl (of_int n) = of_int n"
proof (cases "n = 0")
  case True
  then show ?thesis by (simp add: fl_def)
next
  case False
  define e where "e = ilog2 \<bar>of_int n\<bar> - 52"
  have pos: "(0::rat) < \<bar>of_int n\<bar>" using False by simp
  have "two_pow (ilog2 \<bar>of_int n\<bar>) \<le> \<bar>of_int n\<bar>" by (rule ilog2_le [OF pos])
  also have "\<dots> < two_pow 53"
    using assms by (simp add: two_pow_def)
  finally have "ilog2 \<bar>of_int n\<bar> < 53"
    using two_pow_mono [of 53 "ilog2 \<bar>rat_of_int n\<bar>"]
    by (cases "ilog2 \<bar>rat_of_int n\<bar> < 53") simp_all
  then have e: "e \<le> 0" by (simp add: e_def)
  then have "two_pow (- e) = of_int (2 ^ nat (- e))" by (simp add: two_pow_nat)
  moreover have "of_int n / two_pow e = of_int n * two_pow (- e)"
    using two_pow_add [of e "- e"] by (simp add: field_simps two_pow_def)
  ultimately have "of_int n / two_pow e = of_int (n * 2 ^ nat (- e))" by simp
  then have "round_half_even (of_int n / two_pow e) = n * 2 ^ nat (- e)"
    by (simp only: round_half_even_of_int)
  then have "fl (of_int n) = of_int (n * 2 ^ nat (- e)) * two_pow e"
    using False by (simp add: fl_def Let_def e_def)
  also have "\<dots> = of_int n * (two_pow (- e) * two_pow e)"
    using e by (simp add: two_pow_nat)
  also have "\<dots> = of_int n"
    using two_pow_add [of "- e" e] by (simp add: two_pow_def)
  finally show ?thesis .
qed

lemma fl_numeral [simp]: "numeral k < (2::int) ^ 53 \<Longrightarrow> fl (numeral k) = numeral k"
  using fl_of_int [of "numeral k"] by simp

lemma fl_0 [simp]: "fl 0 = 0"
  by (simp add: fl_def)

lemma fl_1 [simp]: "fl 1 = 1"
  using fl_of_int [of 1] by simp

section \<open>Metrics\<close>

lemma alert_dismissedAt_None [simp]: "alert_dismissedAt a = None"
  by (cases a) simp_all

lemma is_open_always [simp]: "is_open a"
  by (simp add: is_open_def)

lemma resolution_Dependency [simp]: "resolution (Dependency d) = None"
  by (simp add: resolution_def)

lemma resolved_filter_deps [simp]:
  "filter (\<lambda>a. resolution a \<noteq> None) (map Dependency ds) = []"
  by (induction ds) simp_all

text \<open>
  Claim C2. For every repository entry that the metrics calculation produces, \<open>totalAlerts\<close>
  is \<open>openAlerts + closedAlerts\<close>, and it is the sum of the sizes of the entry's three alert
  collections.
\<close>

theorem C2_count_invariant:
  "(let r' = calculateRepoMetrics r
    in totalAlerts (metrics r') = openAlerts (metrics r') + closedAlerts (metrics r') \<and>
       totalAlerts (metrics r') =
         int (length (alerts_code r')) + int (length (alerts_secret r')) +
         int (length (alerts_dependency r')))"
  by (simp add: calculateRepoMetrics_def allAlerts_def Let_def)

text \<open>
  Claim C4. The claim counts an alert as closed when it carries a resolution timestamp and
  its state is not open. The filter of line 456 tests \<^verbatim>\<open>dismissedAt\<close> only, a property that
  none of the three object literals sets, while the filter of line 460 recognises
  \<^verbatim>\<open>resolvedAt\<close> as well. On a secret alert in state \<^verbatim>\<open>resolved\<close> with a \<^verbatim>\<open>resolvedAt\<close>
  timestamp and no \<^verbatim>\<open>dismissedAt\<close>, the code counts one open alert and no closed one.
\<close>

theorem C4_resolved_secret_counted_open:
  "alert_state (Secret resolved_secret) = Some ''resolved'' \<and>
   alert_resolvedAt (Secret resolved_secret) = Some 432000000 \<and>
   alert_dismissedAt (Secret resolved_secret) = None \<and>
   openAlerts (metrics (calculateRepoMetrics
     (blank_repoAudit\<lparr> alerts_secret := [resolved_secret] \<rparr>))) = 1 \<and>
   closedAlerts (metrics (calculateRepoMetrics
     (blank_repoAudit\<lparr> alerts_secret := [resolved_secret] \<rparr>))) = 0"
  by (simp add: calculateRepoMetrics_def allAlerts_def Let_def resolved_secret_def
      blank_repoAudit_def)

text \<open>
  Claim C9. A dependency alert of the common model has no \<^verbatim>\<open>state\<close>, no \<^verbatim>\<open>resolvedAt\<close> and
  no \<^verbatim>\<open>dismissedAt\<close>, whatever \<^verbatim>\<open>dismissedAt\<close> the query returned for it. It is counted as
  open, and the dependency alerts of a repository change neither \<open>closedAlerts\<close> nor
  \<open>meanTimeToResolve\<close>: both are what they are without them.
\<close>

theorem C9_dependency_alerts_always_open:
  "map_dependency_alert (n\<lparr> node_dismissedAt := d \<rparr>) = map_dependency_alert n \<and>
   alert_state (Dependency (map_dependency_alert n)) = None \<and>
   alert_resolvedAt (Dependency (map_dependency_alert n)) = None \<and>
   alert_dismissedAt (Dependency (map_dependency_alert n)) = None \<and>
   is_open (Dependency (map_dependency_alert n)) \<and>
   resolution (Dependency (map_dependency_alert n)) = None \<and>
   openAlerts (metrics (calculateRepoMetrics r)) =
     openAlerts (metrics (calculateRepoMetrics (r\<lparr> alerts_dependency := [] \<rparr>))) +
     int (length (alerts_dependency r)) \<and>
   closedAlerts (metrics (calculateRepoMetrics r)) =
     closedAlerts (metrics (calculateRepoMetrics (r\<lparr> alerts_dependency := [] \<rparr>))) \<and>
   meanTimeToResolve (metrics (calculateRepoMetrics r)) =
     meanTimeToResolve (metrics (calculateRepoMetrics (r\<lparr> alerts_dependency := [] \<rparr>)))"
  by (simp add: calculateRepoMetrics_def allAlerts_def Let_def map_dependency_alert_def)

lemma carries_resolution_iff: "carries_resolution a \<longleftrightarrow> resolution a \<noteq> None"
  by (simp add: carries_resolution_def resolution_def split: option.splits)

lemma resolutionTime_eq:
  "resolution a \<noteq> None \<Longrightarrow> resolutionTime a = Some (days_to_resolve a)"
  by (auto simp: resolutionTime_def days_to_resolve_def days_between_def resolution_def
      split: option.splits)

lemma map_filter_resolutionTime:
  "List.map_filter resolutionTime (filter (\<lambda>a. resolution a \<noteq> None) xs) =
   map days_to_resolve (filter (\<lambda>a. resolution a \<noteq> None) xs)"
  by (induction xs) (simp_all add: List.map_filter_simps resolutionTime_eq)

lemma meanTimeToResolve_eq:
  assumes "meanTimeToResolve (metrics r) = 0"
  shows "meanTimeToResolve (metrics (calculateRepoMetrics r)) =
         spec_meanTimeToResolve (allAlerts r)"
proof -
  have f: "filter carries_resolution xs = filter (\<lambda>a. resolution a \<noteq> None) xs" for xs
    by (rule filter_cong [OF refl]) (simp only: carries_resolution_iff)
  show ?thesis
    using assms
    by (simp add: calculateRepoMetrics_def spec_meanTimeToResolve_def Let_def f average_def
        map_filter_resolutionTime del: not_None_eq)
qed

lemma five_days:
  assumes "resolution a = Some (alert_createdAt a + 5 * (1000 * 60 * 60 * 24))"
  shows "spec_meanTimeToResolve [a] = 5"
proof -
  have c: "carries_resolution a" using assms by (simp add: carries_resolution_iff)
  have "days_to_resolve a = days_between (alert_createdAt a) (alert_createdAt a + 432000000)"
    using assms by (simp add: days_to_resolve_def resolution_def split: option.splits)
  also have "\<dots> = 5" by (simp add: days_between_def fsub_def fdiv_def)
  finally have d: "days_to_resolve a = 5" .
  show ?thesis
    by (simp add: spec_meanTimeToResolve_def c d average_def fadd_def fdiv_def)
qed

text \<open>
  Claim C7. \<^verbatim>\<open>auditRepository\<close> initialises \<open>meanTimeToResolve\<close> to 0 (line 195) before it
  calls \<^verbatim>\<open>calculateRepoMetrics\<close>. For every such repository entry the computed value is the
  average, over exactly the alerts that carry \<^verbatim>\<open>resolvedAt\<close> or \<^verbatim>\<open>dismissedAt\<close>, of the days
  between creation and resolution; it is 0 when no alert carries one; and it is 5 when the
  only alert was resolved five days (432000000 ms) after its creation.
\<close>

theorem C7_meanTimeToResolve:
  assumes "meanTimeToResolve (metrics r) = 0"
  shows "meanTimeToResolve (metrics (calculateRepoMetrics r)) =
           spec_meanTimeToResolve (allAlerts r) \<and>
         (filter carries_resolution (allAlerts r) = [] \<longrightarrow>
            meanTimeToResolve (metrics (calculateRepoMetrics r)) = 0) \<and>
         (\<forall>a. allAlerts r = [a] \<and>
              resolution a = Some (alert_createdAt a + 5 * (1000 * 60 * 60 * 24)) \<longrightarrow>
              meanTimeToResolve (metrics (calculateRepoMetrics r)) = 5)"
  using meanTimeToResolve_eq [OF assms] five_days
  by (auto simp: spec_meanTimeToResolve_def)

theorem C7_meanTimeToResolve_witness:
  "meanTimeToResolve (metrics (blank_repoAudit\<lparr> alerts_secret := [resolved_secret] \<rparr>)) = 0 \<and>
   allAlerts (blank_repoAudit\<lparr> alerts_secret := [resolved_secret] \<rparr>) =
     [Secret resolved_secret] \<and>
   resolution (Secret resolved_secret) =
     Some (alert_createdAt (Secret resolved_secret) + 5 * (1000 * 60 * 60 * 24)) \<and>
   meanTimeToResolve (metrics (calculateRepoMetrics
     (blank_repoAudit\<lparr> alerts_secret := [resolved_secret] \<rparr>))) = 5"
proof -
  let ?r = "blank_repoAudit\<lparr> alerts_secret := [resolved_secret] \<rparr>"
  have h: "meanTimeToResolve (metrics ?r) = 0"
    by (simp add: blank_repoAudit_def fresh_metrics_def)
  have a: "allAlerts ?r = [Secret resolved_secret]"
    by (simp add: allAlerts_def blank_repoAudit_def)
  have t: "resolution (Secret resolved_secret) =
     Some (alert_createdAt (Secret resolved_secret) + 5 * (1000 * 60 * 60 * 24))"
    by (simp add: resolution_def resolved_secret_def)
  from C7_meanTimeToResolve [OF h] a t h show ?thesis by blast
qed

section \<open>Fleet summary\<close>

lemma foldl_count_code:
  "criticalAlerts (foldl count_code_severity s xs) =
     criticalAlerts s + int (length (filter (\<lambda>a. code_severity a = ''critical'') xs)) \<and>
   highAlerts (foldl count_code_severity s xs) =
     highAlerts s + int (length (filter (\<lambda>a. code_severity a = ''high'') xs)) \<and>
   mediumAlerts (foldl count_code_severity s xs) =
     mediumAlerts s + int (length (filter (\<lambda>a. code_severity a = ''medium'') xs)) \<and>
   lowAlerts (foldl count_code_severity s xs) =
     lowAlerts s + int (length (filter (\<lambda>a. code_severity a = ''low'') xs))"
  by (induction xs arbitrary: s) (simp_all add: count_code_severity_def)

lemma foldl_count_code_other:
  "totalRepositories (foldl count_code_severity s xs) = totalRepositories s \<and>
   scannedRepositories (foldl count_code_severity s xs) = scannedRepositories s \<and>
   summary_totalAlerts (foldl count_code_severity s xs) = summary_totalAlerts s \<and>
   secretAlerts (foldl count_code_severity s xs) = secretAlerts s \<and>
   dependencyAlerts (foldl count_code_severity s xs) = dependencyAlerts s \<and>
   codeAlerts (foldl count_code_severity s xs) = codeAlerts s"
  by (induction xs arbitrary: s) (simp_all add: count_code_severity_def)

lemma foldl_count_dependency:
  "criticalAlerts (foldl count_dependency_severity s xs) =
     criticalAlerts s + int (length (filter (\<lambda>a. dep_severity a = ''CRITICAL'') xs)) \<and>
   highAlerts (foldl count_dependency_severity s xs) =
     highAlerts s + int (length (filter (\<lambda>a. dep_severity a = ''HIGH'') xs)) \<and>
   mediumAlerts (foldl count_dependency_severity s xs) =
     mediumAlerts s + int (length (filter (\<lambda>a. dep_severity a = ''MODERATE'') xs)) \<and>
   lowAlerts (foldl count_dependency_severity s xs) =
     lowAlerts s + int (length (filter (\<lambda>a. dep_severity a = ''LOW'') xs))"
  by (induction xs arbitrary: s) (simp_all add: count_dependency_severity_def)

lemma foldl_count_dependency_other:
  "totalRepositories (foldl count_dependency_severity s xs) = totalRepositories s \<and>
   scannedRepositories (foldl count_dependency_severity s xs) = scannedRepositories s \<and>
   summary_totalAlerts (foldl count_dependency_severity s xs) = summary_totalAlerts s \<and>
   secretAlerts (foldl count_dependency_severity s xs) = secretAlerts s \<and>
   dependencyAlerts (foldl count_dependency_severity s xs) = dependencyAlerts s \<and>
   codeAlerts (foldl count_dependency_severity s xs) = codeAlerts s"
  by (induction xs arbitrary: s) (simp_all add: count_dependency_severity_def)

text \<open>The summary after one repository, field by field.\<close>

lemma updateSummary_fields:
  "summary (updateSummary r res) =
     \<lparr> totalRepositories = totalRepositories (summary res),
       scannedRepositories = scannedRepositories (summary res),
       summary_totalAlerts = summary_totalAlerts (summary res) + totalAlerts (metrics r),
       criticalAlerts = criticalAlerts (summary res) +
         int (length (filter (\<lambda>a. code_severity a = ''critical'') (alerts_code r))) +
         int (length (filter (\<lambda>a. dep_severity a = ''CRITICAL'') (alerts_dependency r))),
       highAlerts = highAlerts (summary res) +
         int (length (filter (\<lambda>a. code_severity a = ''high'') (alerts_code r))) +
         int (length (filter (\<lambda>a. dep_severity a = ''HIGH'') (alerts_dependency r))),
       mediumAlerts = mediumAlerts (summary res) +
         int (length (filter (\<lambda>a. code_severity a = ''medium'') (alerts_code r))) +
         int (length (filter (\<lambda>a. dep_severity a = ''MODERATE'') (alerts_dependency r))),
       lowAlerts = lowAlerts (summary res) +
         int (length (filter (\<lambda>a. code_severity a = ''low'') (alerts_code r))) +
         int (length (filter (\<lambda>a. dep_severity a = ''LOW'') (alerts_dependency r))),
       secretAlerts = secretAlerts (summary res) + int (length (alerts_secret r)),
       dependencyAlerts = dependencyAlerts (summary res) + int (length (alerts_dependency r)),
       codeAlerts = codeAlerts (summary res) + int (length (alerts_code r)) \<rparr>"
  by (simp add: updateSummary_def Let_def foldl_count_code foldl_count_code_other
      foldl_count_dependency foldl_count_dependency_other)

text \<open>
  Claim C1, as stated, fails: no severity is normalised. Code alerts ingested with the
  severities \<^verbatim>\<open>critical\<close>, \<^verbatim>\<open>HIGH\<close>, \<^verbatim>\<open>Medium\<close>, \<^verbatim>\<open>low\<close> and \<^verbatim>\<open>unknown-string\<close> count as one
  critical and one low alert, and as no high and no medium alert; the summary has no bucket
  for unknown severities.
\<close>

theorem C1_counterexample:
  "criticalAlerts (summary (updateSummary
     (blank_repoAudit\<lparr> alerts_code := map map_code_alert mixed_severities \<rparr>)
     (results acme_audit))) = 1 \<and>
   highAlerts (summary (updateSummary
     (blank_repoAudit\<lparr> alerts_code := map map_code_alert mixed_severities \<rparr>)
     (results acme_audit))) = 0 \<and>
   mediumAlerts (summary (updateSummary
     (blank_repoAudit\<lparr> alerts_code := map map_code_alert mixed_severities \<rparr>)
     (results acme_audit))) = 0 \<and>
   lowAlerts (summary (updateSummary
     (blank_repoAudit\<lparr> alerts_code := map map_code_alert mixed_severities \<rparr>)
     (results acme_audit))) = 1"
  by (simp add: updateSummary_def Let_def blank_repoAudit_def mixed_severities_def
      raw_with_severity_def map_code_alert_def or_unknown_def count_code_severity_def
      acme_audit_def GHASAudit_def)

text \<open>
  Claim C1, amended. Ingestion keeps the severity string of the platform as it is (a missing
  or empty one on a code alert becomes \<^verbatim>\<open>unknown\<close>). The summary counts a code alert in
  the bucket whose lower-case name its severity is exactly, and a dependency alert in the
  bucket of \<^verbatim>\<open>CRITICAL\<close>, \<^verbatim>\<open>HIGH\<close>, \<^verbatim>\<open>MODERATE\<close> (medium) or \<^verbatim>\<open>LOW\<close> when its severity is
  exactly that; every other alert is counted in no severity bucket.
\<close>

theorem C1_severity_counting:
  "code_severity (map_code_alert raw) = or_unknown (rule_security_severity_level raw) \<and>
   or_unknown (Some (c # cs)) = c # cs \<and>
   dep_severity (map_dependency_alert n) = securityVulnerability_severity n \<and>
   criticalAlerts (summary (updateSummary r res)) =
     criticalAlerts (summary res) +
     int (length (filter (\<lambda>a. code_severity a = ''critical'') (alerts_code r))) +
     int (length (filter (\<lambda>a. dep_severity a = ''CRITICAL'') (alerts_dependency r))) \<and>
   highAlerts (summary (updateSummary r res)) =
     highAlerts (summary res) +
     int (length (filter (\<lambda>a. code_severity a = ''high'') (alerts_code r))) +
     int (length (filter (\<lambda>a. dep_severity a = ''HIGH'') (alerts_dependency r))) \<and>
   mediumAlerts (summary (updateSummary r res)) =
     mediumAlerts (summary res) +
     int (length (filter (\<lambda>a. code_severity a = ''medium'') (alerts_code r))) +
     int (length (filter (\<lambda>a. dep_severity a = ''MODERATE'') (alerts_dependency r))) \<and>
   lowAlerts (summary (updateSummary r res)) =
     lowAlerts (summary res) +
     int (length (filter (\<lambda>a. code_severity a = ''low'') (alerts_code r))) +
     int (length (filter (\<lambda>a. dep_severity a = ''LOW'') (alerts_dependency r)))"
  by (simp add: updateSummary_fields map_code_alert_def map_dependency_alert_def or_unknown_def)

section \<open>Repository selector\<close>

lemmas trim_eval =
  trim_def trimStart.simps trimEnd.simps space_prefix_def space_suffix_def white_space_def

lemma trim_no_break_space:
  "trim ([CHR 0xC2, CHR 0xA0] @ ''ghost '') = ''ghost''"
  by (simp add: trim_eval)

lemma resolve_names_eq:
  "resolve_names e ns =
     (List.map_filter (resolves e) ns,
      map ((@) ''Warning: Could not access repository '')
        (filter (\<lambda>repoName. resolves e repoName = None) ns))"
  by (induction ns)
     (auto simp: List.map_filter_simps resolves_def split: prod.splits sum.splits)

text \<open>
  Claim C8, as stated, fails: nothing removes duplicates. The name list
  \<^verbatim>\<open>payment-api, payment-api\<close> selects the repository twice.
\<close>

theorem C8_counterexample:
  "getRepositories one_repo_org (GHASAudit ''acme'' twice_options ''2025-06-30T00:00:00.000Z'') =
     Some (Inr ([payment_api, payment_api], []))"
  by (simp add: getRepositories_def GHASAudit_def twice_options_def trim_eval
      one_repo_org_def empty_org_def)

text \<open>
  Claim C8, amended. For an explicit name list the selector returns one repository per
  requested name that resolves, in the order of the request and with its repetitions; a name
  that does not resolve is skipped, and one warning that names it is written for each of its
  occurrences; the result, which may be empty, is never an error.
\<close>

theorem C8_selector:
  assumes "opt_repos (options a) = Some (c # cs)"
  shows "getRepositories e a =
           Some (Inr (List.map_filter (resolves e) (map trim (split_comma (c # cs))),
                      map ((@) ''Warning: Could not access repository '')
                        (filter (\<lambda>repoName. resolves e repoName = None)
                           (map trim (split_comma (c # cs))))))"
  using assms
  by (simp add: getRepositories_def resolve_names_eq del: split_comma.simps)

theorem C8_selector_witness:
  "opt_repos (options (GHASAudit ''acme'' repeat_options ''2025-06-30T00:00:00.000Z'')) =
     Some (''payment-api,'' @ [CHR 0xC2, CHR 0xA0] @ ''ghost , payment-api'') \<and>
   getRepositories one_repo_org (GHASAudit ''acme'' repeat_options ''2025-06-30T00:00:00.000Z'') =
     Some (Inr ([payment_api, payment_api], [''Warning: Could not access repository ghost'']))"
proof -
  let ?a = "GHASAudit ''acme'' repeat_options ''2025-06-30T00:00:00.000Z''"
  have h: "opt_repos (options ?a) =
      Some (CHR ''p'' # (''ayment-api,'' @ [CHR 0xC2, CHR 0xA0] @ ''ghost , payment-api''))"
    by (simp add: GHASAudit_def repeat_options_def)
  have n: "map trim (split_comma
        (CHR ''p'' # (''ayment-api,'' @ [CHR 0xC2, CHR 0xA0] @ ''ghost , payment-api''))) =
      [''payment-api'', ''ghost'', ''payment-api'']"
    by (simp add: trim_eval)
  have r: "resolves one_repo_org ''payment-api'' = Some payment_api"
          "resolves one_repo_org ''ghost'' = None"
    by (simp_all add: resolves_def one_repo_org_def empty_org_def)
  from C8_selector [OF h, of one_repo_org] show ?thesis
    unfolding n by (simp add: List.map_filter_simps r GHASAudit_def repeat_options_def)
qed

section \<open>One repository\<close>

lemma getSecurityFeatures_pushProtection:
  "\<not> secretScanning_pushProtection (fst (getSecurityFeatures e r))"
  by (simp add: getSecurityFeatures_def Let_def split: sum.splits list.splits option.splits)

lemma auditRepository_Some:
  assumes "auditRepository e r a = Some a'"
  shows "\<exists>ra ws. a' = a\<lparr> results := record_repoAudit ra (results a), warnings := ws \<rparr> \<and>
                 \<not> secretScanning_pushProtection (securityFeatures ra)"
proof -
  obtain features ws1 where f: "getSecurityFeatures e r = (features, ws1)"
    by (cases "getSecurityFeatures e r")
  have p: "\<not> secretScanning_pushProtection features"
    using getSecurityFeatures_pushProtection [of e r] f by simp
  show ?thesis
    using assms p
    by (auto simp: auditRepository_def f Let_def split: option.splits sum.splits prod.splits)
qed

lemma getSecurityFeatures_dependabot_error:
  "dependabot_error (fst (getSecurityFeatures e r)) = None"
  by (simp add: getSecurityFeatures_def Let_def split: sum.splits list.splits option.splits)

lemma getCodeScanningAlerts_one_page:
  assumes "code_scanning_alerts e (repo_name r) 1 = Inr data" "length data \<noteq> 100"
  shows "getCodeScanningAlerts e r = Some (Inr (map map_code_alert data))"
  unfolding getCodeScanningAlerts_def
  using assms by (subst getCodeScanningAlerts_loop.simps) simp

lemma getSecretScanningAlerts_one_page:
  assumes "secret_scanning_alerts e (repo_name r) 1 = Inr data" "length data \<noteq> 100"
  shows "getSecretScanningAlerts e r = Some (Inr (map map_secret_alert data))"
  unfolding getSecretScanningAlerts_def
  using assms by (subst getSecretScanningAlerts_loop.simps) simp

lemma getDependabotAlerts_fails_on_page_2:
  assumes "graphqlWithAuth e (repo_name r) None = Inr (Some va)" "pageInfo_hasNextPage va"
    and "graphqlWithAuth e (repo_name r) (pageInfo_endCursor va) = Inl err"
  shows "getDependabotAlerts e r =
           Some (map map_dependency_alert (nodes va),
                 [''Warning: Could not fetch Dependabot alerts via GraphQL for '' @ repo_name r])"
  unfolding getDependabotAlerts_def
  apply (subst getDependabotAlerts_loop.simps)
  apply (simp add: assms)
  apply (subst getDependabotAlerts_loop.simps)
  apply (simp add: assms)
  done

lemma record_repoAudit_repositories:
  "repositories (record_repoAudit ra res) = repositories res @ [calculateRepoMetrics ra]"
  by (simp add: record_repoAudit_def updateSummary_def Let_def)

lemma record_repoAudit_compliance:
  "compliance (record_repoAudit ra res) = compliance res"
  by (simp add: record_repoAudit_def updateSummary_def Let_def)

lemma calculateRepoMetrics_alerts:
  "alerts_code (calculateRepoMetrics ra) = alerts_code ra \<and>
   alerts_secret (calculateRepoMetrics ra) = alerts_secret ra \<and>
   alerts_dependency (calculateRepoMetrics ra) = alerts_dependency ra \<and>
   securityFeatures (calculateRepoMetrics ra) = securityFeatures ra"
  by (simp add: calculateRepoMetrics_def Let_def)

text \<open>
  Claim C3, amended. When the code and secret collectors succeed and the dependency query
  fails on the page after the first, the repository is recorded with the code alerts, the
  secret alerts and the dependency alerts of the first page; the warning is written; no
  error is annotated on the feature; and \<^verbatim>\<open>auditRepository\<close> returns.
\<close>

theorem C3_partial_dependency_failure:
  assumes "getCodeScanningAlerts e r = Some (Inr cs)"
    and "getSecretScanningAlerts e r = Some (Inr ss)"
    and "graphqlWithAuth e (repo_name r) None = Inr (Some va)"
    and "pageInfo_hasNextPage va"
    and "graphqlWithAuth e (repo_name r) (pageInfo_endCursor va) = Inl err"
  shows "\<exists>a' ra. auditRepository e r a = Some a' \<and>
           repositories (results a') = repositories (results a) @ [ra] \<and>
           alerts_code ra = cs \<and> alerts_secret ra = ss \<and>
           alerts_dependency ra = map map_dependency_alert (nodes va) \<and>
           dependabot_error (securityFeatures ra) = None \<and>
           (''Warning: Could not fetch Dependabot alerts via GraphQL for '' @ repo_name r)
             \<in> set (warnings a')"
proof -
  obtain features ws1 where f: "getSecurityFeatures e r = (features, ws1)"
    by (cases "getSecurityFeatures e r")
  have d: "dependabot_error features = None"
    using getSecurityFeatures_dependabot_error [of e r] f by simp
  show ?thesis
    using d
    by (simp add: auditRepository_def f Let_def assms(1,2)
        getDependabotAlerts_fails_on_page_2 [OF assms(3,4,5)]
        record_repoAudit_repositories calculateRepoMetrics_alerts)
qed

lemma flaky_code: "getCodeScanningAlerts flaky_dependabot_org payment_api = Some (Inr [map_code_alert sql_injection])"
  using getCodeScanningAlerts_one_page [of flaky_dependabot_org payment_api "[sql_injection]"]
  by (simp add: flaky_dependabot_org_def one_repo_org_def empty_org_def)

lemma flaky_secret: "getSecretScanningAlerts flaky_dependabot_org payment_api = Some (Inr [map_secret_alert leaked_token])"
  using getSecretScanningAlerts_one_page [of flaky_dependabot_org payment_api "[leaked_token]"]
  by (simp add: flaky_dependabot_org_def one_repo_org_def empty_org_def)

lemma flaky_page1:
  "graphqlWithAuth flaky_dependabot_org (repo_name payment_api) None =
     Inr (Some \<lparr> nodes = [lodash_advisory], pageInfo_hasNextPage = True,
                  pageInfo_endCursor = Some ''Y3Vyc29yOjE='' \<rparr>)"
  by (simp add: flaky_dependabot_org_def one_repo_org_def empty_org_def)

lemma flaky_page2:
  "graphqlWithAuth flaky_dependabot_org (repo_name payment_api) (Some ''Y3Vyc29yOjE='') = Inl bad_gateway"
  by (simp add: flaky_dependabot_org_def one_repo_org_def empty_org_def)

text \<open>
  Claim C3, as stated, fails: the dependency collection is not empty after the failure. It
  holds the alert of the first page.
\<close>

theorem C3_counterexample:
  "map_option (map alerts_dependency \<circ> repositories \<circ> results)
     (auditRepository flaky_dependabot_org payment_api acme_audit) =
   Some [[map_dependency_alert lodash_advisory]]"
proof -
  have "getDependabotAlerts flaky_dependabot_org payment_api =
      Some ([map_dependency_alert lodash_advisory],
            [''Warning: Could not fetch Dependabot alerts via GraphQL for '' @ repo_name payment_api])"
    using getDependabotAlerts_fails_on_page_2 [OF flaky_page1 _ , of bad_gateway] flaky_page2
    by simp
  then show ?thesis
    by (cases "getSecurityFeatures flaky_dependabot_org payment_api")
       (simp add: auditRepository_def Let_def flaky_code flaky_secret
          record_repoAudit_repositories calculateRepoMetrics_alerts acme_audit_def GHASAudit_def)
qed

theorem C3_partial_dependency_failure_witness:
  "getCodeScanningAlerts flaky_dependabot_org payment_api = Some (Inr [map_code_alert sql_injection]) \<and>
   getSecretScanningAlerts flaky_dependabot_org payment_api = Some (Inr [map_secret_alert leaked_token]) \<and>
   graphqlWithAuth flaky_dependabot_org (repo_name payment_api) None =
     Inr (Some \<lparr> nodes = [lodash_advisory], pageInfo_hasNextPage = True,
                  pageInfo_endCursor = Some ''Y3Vyc29yOjE='' \<rparr>) \<and>
   graphqlWithAuth flaky_dependabot_org (repo_name payment_api) (Some ''Y3Vyc29yOjE='') = Inl bad_gateway \<and>
   (\<exists>a' ra. auditRepository flaky_dependabot_org payment_api acme_audit = Some a' \<and>
      repositories (results a') = [ra] \<and>
      alerts_code ra = [map_code_alert sql_injection] \<and>
      alerts_secret ra = [map_secret_alert leaked_token] \<and>
      alerts_dependency ra = [map_dependency_alert lodash_advisory])"
proof -
  have init: "repositories (results acme_audit) = []"
    by (simp add: acme_audit_def GHASAudit_def)
  from C3_partial_dependency_failure [OF flaky_code flaky_secret flaky_page1, of bad_gateway acme_audit]
    flaky_page2
  obtain a' ra where "auditRepository flaky_dependabot_org payment_api acme_audit = Some a'"
    "repositories (results a') = repositories (results acme_audit) @ [ra]"
    "alerts_code ra = [map_code_alert sql_injection]"
    "alerts_secret ra = [map_secret_alert leaked_token]"
    "alerts_dependency ra = map map_dependency_alert [lodash_advisory]"
    by auto
  then show ?thesis using flaky_code flaky_secret flaky_page1 flaky_page2 init by auto
qed

section \<open>The run\<close>

lemma auditAll_compliance:
  "auditAll e rs a = Some a' \<Longrightarrow> compliance (results a') = compliance (results a)"
proof (induction rs arbitrary: a)
  case Nil
  then show ?case by simp
next
  case (Cons r rs)
  then obtain a1 where a1: "auditRepository e r a = Some a1" "auditAll e rs a1 = Some a'"
    by (auto split: option.splits)
  from auditRepository_Some [OF a1(1)] have "compliance (results a1) = compliance (results a)"
    by (auto simp: record_repoAudit_compliance)
  with Cons.IH [OF a1(2)] show ?case by simp
qed

lemma calculateCompliance_repositories:
  "repositories (calculateCompliance res) = repositories res"
  by (simp add: calculateCompliance_def Let_def)

text \<open>
  Claim C10. A run that ends with no repository in \<^verbatim>\<open>results.repositories\<close> leaves the
  compliance block as the constructor made it: \<open>overallScore\<close> is 0 and \<open>frameworks\<close> is the
  empty mapping, with no entry for OWASP, NIST or ISO27001.
\<close>

theorem C10_empty_fleet:
  assumes "run e (GHASAudit org' options' now) = Some (Inr a)"
    and "repositories (results a) = []"
  shows "overallScore (compliance (results a)) = 0 \<and>
         frameworks (compliance (results a)) = Map.empty \<and>
         frameworks (compliance (results a)) ''OWASP'' = None \<and>
         frameworks (compliance (results a)) ''NIST'' = None \<and>
         frameworks (compliance (results a)) ''ISO27001'' = None"
proof -
  from assms(1) obtain repos ws a0 a1 where
    a0: "a0 = (GHASAudit org' options' now)\<lparr> warnings := warnings (GHASAudit org' options' now) @ ws,
          results := (results (GHASAudit org' options' now))\<lparr> summary :=
            (summary (results (GHASAudit org' options' now)))\<lparr> totalRepositories := int (length repos) \<rparr> \<rparr> \<rparr>"
    and a1: "auditAll e repos a0 = Some a1"
    and a: "a = a1\<lparr> results := calculateCompliance (results a1) \<rparr>"
    by (auto simp: run_def Let_def split: option.splits sum.splits prod.splits)
  have "repositories (results a1) = []"
    using assms(2) a by (simp add: calculateCompliance_repositories)
  then have "calculateCompliance (results a1) = results a1"
    by (simp add: calculateCompliance_def)
  then have "compliance (results a) = compliance (results a1)" using a by simp
  also have "\<dots> = compliance (results a0)" by (rule auditAll_compliance [OF a1])
  also have "\<dots> = \<lparr> overallScore = 0, frameworks = Map.empty \<rparr>"
    by (simp add: a0 GHASAudit_def)
  finally show ?thesis by simp
qed

lemma listForOrg_empty:
  "fetch 1 = Inr [] \<Longrightarrow> listForOrg_loop fetch 1 [] = Some (Inr [])"
  by (subst listForOrg_loop.simps) simp

theorem C10_empty_fleet_witness:
  "run empty_org acme_audit = Some (Inr acme_audit) \<and>
   repositories (results acme_audit) = [] \<and>
   overallScore (compliance (results acme_audit)) = 0 \<and>
   frameworks (compliance (results acme_audit)) = Map.empty"
proof -
  have l: "listForOrg_loop (repos_listForOrg empty_org) 1 [] = Some (Inr [])"
    by (rule listForOrg_empty) (simp add: empty_org_def)
  have r: "run empty_org (GHASAudit ''acme'' acme_options ''2025-06-30T00:00:00.000Z'') =
      Some (Inr acme_audit)"
    using l
    by (simp add: run_def getRepositories_def acme_audit_def GHASAudit_def acme_options_def
        calculateCompliance_def)
  have e: "repositories (results acme_audit) = []"
    by (simp add: acme_audit_def GHASAudit_def)
  from C10_empty_fleet [OF r e] r e show ?thesis by (simp add: acme_audit_def)
qed

section \<open>Compliance scores\<close>

lemma fadd_nonneg: "0 \<le> a \<Longrightarrow> 0 \<le> b \<Longrightarrow> 0 \<le> fadd a b"
  by (simp add: fadd_def fl_nonneg)

lemma fmul_nonneg: "0 \<le> a \<Longrightarrow> 0 \<le> b \<Longrightarrow> 0 \<le> fmul a b"
  by (simp add: fmul_def fl_nonneg)

lemma fdiv_nonneg: "0 \<le> a \<Longrightarrow> 0 \<le> b \<Longrightarrow> 0 \<le> fdiv a b"
  by (simp add: fdiv_def fl_nonneg)

lemma OWASP_bounds: "0 \<le> calculateOWASPCompliance res \<and> calculateOWASPCompliance res \<le> 100"
  by (simp add: calculateOWASPCompliance_def Let_def fadd_nonneg fmul_nonneg fdiv_nonneg)

lemma NIST_bounds: "0 \<le> calculateNISTCompliance res \<and> calculateNISTCompliance res \<le> 100"
  by (simp add: calculateNISTCompliance_def Let_def fadd_nonneg fmul_nonneg fdiv_nonneg)

lemma ISO_bounds: "0 \<le> calculateISOCompliance res \<and> calculateISOCompliance res \<le> 100"
  by (simp add: calculateISOCompliance_def Let_def fadd_nonneg fmul_nonneg fdiv_nonneg)

text \<open>
  Bounds on a common binary grid: the rounded sum of two values stays below the sum of their
  bounds when that sum has at most 53 bits.
\<close>

lemma fadd_le:
  assumes "x \<le> of_int m * two_pow g" "y \<le> of_int d * two_pow g"
    and "0 \<le> m + d" "m + d \<le> 2 ^ 53"
  shows "fadd x y \<le> of_int (m + d) * two_pow g"
  unfolding fadd_def
proof (rule fl_le)
  show "x + y \<le> rat_of_int (m + d) * two_pow g"
    using assms(1,2) by (simp add: algebra_simps)
qed (use assms in simp_all)

lemma le_grid:
  assumes "x \<le> of_int a * two_pow g" "a \<le> b"
  shows "x \<le> of_int b * two_pow g"
proof -
  have "of_int a * two_pow g \<le> of_int b * two_pow g"
    using assms(2) by (simp add: less_imp_le)
  with assms(1) show ?thesis by (rule order_trans)
qed

lemma fl_33_le: "fl (33 / 100) \<le> of_int 3 * two_pow (- 3)"
  by (rule fl_le) (simp_all add: two_pow_def)

lemma fl_34_le: "fl (34 / 100) \<le> of_int 3 * two_pow (- 3)"
  by (rule fl_le) (simp_all add: two_pow_def)

lemma fl_half_le: "fl (1 / 2) \<le> of_int 1 * two_pow (- 1)"
  by (rule fl_le) (simp_all add: two_pow_def)

lemma fl_33_nonneg: "0 \<le> fl (33 / 100)"
  by (rule fl_nonneg) simp

lemma fl_34_nonneg: "0 \<le> fl (34 / 100)"
  by (rule fl_nonneg) simp

lemma fl_half_nonneg: "0 \<le> fl (1 / 2)"
  by (rule fl_nonneg) simp

lemma fadd_le_grid:
  assumes "x \<le> of_int m * two_pow g" "y \<le> of_int d * two_pow g"
    and "0 \<le> m + d" "m + d \<le> n" "n \<le> 2 ^ 53"
  shows "fadd x y \<le> of_int n * two_pow g"
proof -
  have "fadd x y \<le> of_int (m + d) * two_pow g"
    using assms by (intro fadd_le) simp_all
  then show ?thesis using assms(4) by (rule le_grid)
qed

text \<open>
  One step of the loop of lines 531-547 on a repository entry as \<^verbatim>\<open>auditRepository\<close>
  records it: push protection is never set (line 239 is its only assignment) and no alert is
  counted as closed. After \<open>k\<close> entries the three sums are at most \<open>9k/8\<close>, \<open>k/2\<close> and \<open>k\<close>.
\<close>

lemma score_repo_bounds:
  assumes r: "\<not> secretScanning_pushProtection (securityFeatures r)" "closedAlerts (metrics r) = 0"
    and s: "0 \<le> scanning s" "scanning s \<le> of_int (9 * k) * two_pow (- 3)"
           "0 \<le> protection s" "protection s \<le> of_int k * two_pow (- 1)"
           "0 \<le> resolution_score s" "resolution_score s \<le> of_int k * two_pow 0"
    and k: "0 \<le> k" "9 * (k + 1) \<le> 2 ^ 53"
  shows "0 \<le> scanning (score_repo s r) \<and>
         scanning (score_repo s r) \<le> of_int (9 * (k + 1)) * two_pow (- 3) \<and>
         0 \<le> protection (score_repo s r) \<and>
         protection (score_repo s r) \<le> of_int (k + 1) * two_pow (- 1) \<and>
         0 \<le> resolution_score (score_repo s r) \<and>
         resolution_score (score_repo s r) \<le> of_int (k + 1) * two_pow 0"
proof -
  define x1 where "x1 = (if codeScanning_enabled (securityFeatures r)
                         then fadd (scanning s) (fl (33 / 100)) else scanning s)"
  define x2 where "x2 = (if secretScanning_enabled (securityFeatures r)
                         then fadd x1 (fl (33 / 100)) else x1)"
  define x3 where "x3 = (if dependabot_enabled (securityFeatures r)
                         then fadd x2 (fl (34 / 100)) else x2)"
  define p1 where "p1 = (if branchProtection_enabled (securityFeatures r)
                         then fadd (protection s) (fl (1 / 2)) else protection s)"
  define q1 where "q1 = (if totalAlerts (metrics r) > 0
                         then fadd (resolution_score s) 0
                         else fadd (resolution_score s) 1)"
  have sc: "scanning (score_repo s r) = x3"
    using r(1) by (simp add: score_repo_def Let_def x1_def x2_def x3_def)
  have pr: "protection (score_repo s r) = p1"
    using r(1) by (simp add: score_repo_def Let_def p1_def)
  have rs: "resolution_score (score_repo s r) = q1"
    using r(2) by (simp add: score_repo_def Let_def q1_def fdiv_def)
  have x1: "0 \<le> x1" "x1 \<le> of_int (9 * k + 3) * two_pow (- 3)"
  proof -
    show "0 \<le> x1" using s(1) by (simp add: x1_def fadd_nonneg fl_33_nonneg)
    have "fadd (scanning s) (fl (33 / 100)) \<le> of_int (9 * k + 3) * two_pow (- 3)"
      using k by (intro fadd_le_grid [OF s(2) fl_33_le]) simp_all
    moreover have "scanning s \<le> of_int (9 * k + 3) * two_pow (- 3)"
      by (rule le_grid [OF s(2)]) simp
    ultimately show "x1 \<le> of_int (9 * k + 3) * two_pow (- 3)" 
      unfolding x1_def by (rule_tac if_split [THEN iffD2]) blast
  qed
  have x2: "0 \<le> x2" "x2 \<le> of_int (9 * k + 6) * two_pow (- 3)"
  proof -
    show "0 \<le> x2" using x1(1) by (simp add: x2_def fadd_nonneg fl_33_nonneg)
    have "fadd x1 (fl (33 / 100)) \<le> of_int (9 * k + 6) * two_pow (- 3)"
      using k by (intro fadd_le_grid [OF x1(2) fl_33_le]) simp_all
    moreover have "x1 \<le> of_int (9 * k + 6) * two_pow (- 3)"
      by (rule le_grid [OF x1(2)]) simp
    ultimately show "x2 \<le> of_int (9 * k + 6) * two_pow (- 3)"
      unfolding x2_def by (rule_tac if_split [THEN iffD2]) blast
  qed
  have x3: "0 \<le> x3" "x3 \<le> of_int (9 * (k + 1)) * two_pow (- 3)"
  proof -
    show "0 \<le> x3" using x2(1) fl_34_nonneg by (simp add: x3_def fadd_nonneg)
    have "fadd x2 (fl (34 / 100)) \<le> of_int (9 * (k + 1)) * two_pow (- 3)"
      using k by (intro fadd_le_grid [OF x2(2) fl_34_le]) simp_all
    moreover have "x2 \<le> of_int (9 * (k + 1)) * two_pow (- 3)"
      by (rule le_grid [OF x2(2)]) simp
    ultimately show "x3 \<le> of_int (9 * (k + 1)) * two_pow (- 3)"
      unfolding x3_def by (rule_tac if_split [THEN iffD2]) blast
  qed
  have p1: "0 \<le> p1" "p1 \<le> of_int (k + 1) * two_pow (- 1)"
  proof -
    show "0 \<le> p1" using s(3) by (simp add: p1_def fadd_nonneg fl_half_nonneg)
    have "fadd (protection s) (fl (1 / 2)) \<le> of_int (k + 1) * two_pow (- 1)"
      using k by (intro fadd_le_grid [OF s(4) fl_half_le]) simp_all
    moreover have "protection s \<le> of_int (k + 1) * two_pow (- 1)"
      by (rule le_grid [OF s(4)]) simp
    ultimately show "p1 \<le> of_int (k + 1) * two_pow (- 1)"
      unfolding p1_def by (rule_tac if_split [THEN iffD2]) blast
  qed
  have one: "(1::rat) \<le> of_int 1 * two_pow 0" by (simp add: two_pow_def)
  have zero: "(0::rat) \<le> of_int 0 * two_pow 0" by simp
  have q1: "0 \<le> q1" "q1 \<le> of_int (k + 1) * two_pow 0"
  proof -
    show "0 \<le> q1" using s(5) by (simp add: q1_def fadd_nonneg)
    have "fadd (resolution_score s) 1 \<le> of_int (k + 1) * two_pow 0"
      using k by (intro fadd_le_grid [OF s(6) one]) simp_all
    moreover have "fadd (resolution_score s) 0 \<le> of_int (k + 1) * two_pow 0"
      using k by (intro fadd_le_grid [OF s(6) zero]) simp_all
    ultimately show "q1 \<le> of_int (k + 1) * two_pow 0"
      unfolding q1_def by (rule_tac if_split [THEN iffD2]) blast
  qed
  show ?thesis using x3 p1 q1 by (simp only: sc pr rs) 
qed


lemma foldl_score_repo_bounds:
  assumes "\<forall>r\<in>set rs. \<not> secretScanning_pushProtection (securityFeatures r) \<and>
                        closedAlerts (metrics r) = 0"
    and "0 \<le> scanning s" "scanning s \<le> of_int (9 * k) * two_pow (- 3)"
        "0 \<le> protection s" "protection s \<le> of_int k * two_pow (- 1)"
        "0 \<le> resolution_score s" "resolution_score s \<le> of_int k * two_pow 0"
    and "0 \<le> k" "9 * (k + int (length rs)) \<le> 2 ^ 53"
  shows "0 \<le> scanning (foldl score_repo s rs) \<and>
         scanning (foldl score_repo s rs) \<le> of_int (9 * (k + int (length rs))) * two_pow (- 3) \<and>
         0 \<le> protection (foldl score_repo s rs) \<and>
         protection (foldl score_repo s rs) \<le> of_int (k + int (length rs)) * two_pow (- 1) \<and>
         0 \<le> resolution_score (foldl score_repo s rs) \<and>
         resolution_score (foldl score_repo s rs) \<le> of_int (k + int (length rs)) * two_pow 0"
  using assms
proof (induction rs arbitrary: s k)
  case Nil
  then show ?case by simp
next
  case (Cons r rs)
  have r: "\<not> secretScanning_pushProtection (securityFeatures r)" "closedAlerts (metrics r) = 0"
    using Cons.prems(1) by simp_all
  have k1: "9 * (k + 1) \<le> 2 ^ 53" using Cons.prems(9) by simp
  note step = score_repo_bounds [OF r Cons.prems(2-7) Cons.prems(8) k1]
  have "0 \<le> scanning (foldl score_repo (score_repo s r) rs) \<and>
        scanning (foldl score_repo (score_repo s r) rs)
          \<le> of_int (9 * (k + 1 + int (length rs))) * two_pow (- 3) \<and>
        0 \<le> protection (foldl score_repo (score_repo s r) rs) \<and>
        protection (foldl score_repo (score_repo s r) rs)
          \<le> of_int (k + 1 + int (length rs)) * two_pow (- 1) \<and>
        0 \<le> resolution_score (foldl score_repo (score_repo s r) rs) \<and>
        resolution_score (foldl score_repo (score_repo s r) rs)
          \<le> of_int (k + 1 + int (length rs)) * two_pow 0"
  proof (rule Cons.IH)
    show "\<forall>r\<in>set rs. \<not> secretScanning_pushProtection (securityFeatures r) \<and>
                        closedAlerts (metrics r) = 0"
      using Cons.prems(1) by simp
    show "0 \<le> k + 1" using Cons.prems(8) by simp
    show "9 * (k + 1 + int (length rs)) \<le> 2 ^ 53" using Cons.prems(9) by simp
  qed (use step in simp_all)
  moreover have "k + 1 + int (length rs) = k + int (length (r # rs))" by simp
  ultimately show ?case by (simp only: foldl_Cons)
qed

lemma fdiv_le:
  assumes "x \<le> of_int m * two_pow g * b" "0 < b" "0 \<le> m" "m \<le> 2 ^ 53"
  shows "fdiv x b \<le> of_int m * two_pow g"
  unfolding fdiv_def
proof (rule fl_le)
  show "x / b \<le> of_int m * two_pow g" using assms(1,2) by (simp add: pos_divide_le_eq)
qed (use assms in simp_all)

lemma fmul_le:
  assumes "x \<le> u" "0 \<le> c" "u * c \<le> of_int m * two_pow g" "0 \<le> m" "m \<le> 2 ^ 53"
  shows "fmul x c \<le> of_int m * two_pow g"
  unfolding fmul_def
proof (rule fl_le)
  have "x * c \<le> u * c" using assms(1,2) by (rule mult_right_mono)
  then show "x * c \<le> of_int m * two_pow g" using assms(3) by simp
qed (use assms in simp_all)

text \<open>The overall score of a fleet of recorded entries is at most 87.5.\<close>

lemma overallScore_bounds:
  assumes inv: "\<forall>r\<in>set (repositories res).
                  \<not> secretScanning_pushProtection (securityFeatures r) \<and>
                  closedAlerts (metrics r) = 0"
    and ne: "repositories res \<noteq> []"
    and len: "length (repositories res) < 2 ^ 32"
  shows "0 \<le> overallScore (compliance (calculateCompliance res)) \<and>
         overallScore (compliance (calculateCompliance res)) \<le> 100"
proof -
  define n where "n = length (repositories res)"
  define s where "s = foldl score_repo \<lparr> scanning = 0, protection = 0, resolution_score = 0 \<rparr>
                        (repositories res)"
  have n: "0 < n" "n < 2 ^ 32" using ne len by (simp_all add: n_def)
  have nn: "(0::rat) < of_nat n" using n(1) by simp
  have "9 * (0 + int n) \<le> 2 ^ 53" using n(2) by simp
  then have b: "0 \<le> scanning s \<and> scanning s \<le> of_int (9 * (0 + int n)) * two_pow (- 3) \<and>
      0 \<le> protection s \<and> protection s \<le> of_int (0 + int n) * two_pow (- 1) \<and>
      0 \<le> resolution_score s \<and> resolution_score s \<le> of_int (0 + int n) * two_pow 0"
    unfolding s_def n_def
    by (intro foldl_score_repo_bounds [OF inv]) simp_all
  define sc where "sc = fmul (fdiv (scanning s) (of_nat n)) 100"
  define pr where "pr = fmul (fdiv (protection s) (of_nat n)) 100"
  define rs where "rs = fmul (fdiv (resolution_score s) (of_nat n)) 100"
  have ov: "overallScore (compliance (calculateCompliance res)) = fdiv (fadd (fadd sc pr) rs) 3"
    using ne by (simp add: calculateCompliance_def Let_def sc_def pr_def rs_def s_def n_def)
  have sc0: "0 \<le> sc" using b nn by (simp add: sc_def fmul_nonneg fdiv_nonneg)
  have pr0: "0 \<le> pr" using b nn by (simp add: pr_def fmul_nonneg fdiv_nonneg)
  have rs0: "0 \<le> rs" using b nn by (simp add: rs_def fmul_nonneg fdiv_nonneg)
  have "fdiv (scanning s) (of_nat n) \<le> of_int 9 * two_pow (- 3)"
    using b nn by (intro fdiv_le) (simp_all add: algebra_simps)
  then have sc1: "sc \<le> of_int 225 * two_pow (- 1)"
    unfolding sc_def by (rule fmul_le) (simp_all add: two_pow_def)
  have "fdiv (protection s) (of_nat n) \<le> of_int 1 * two_pow (- 1)"
    using b nn by (intro fdiv_le) (simp_all add: algebra_simps)
  then have pr1: "pr \<le> of_int 100 * two_pow (- 1)"
    unfolding pr_def by (rule fmul_le) (simp_all add: two_pow_def)
  have "fdiv (resolution_score s) (of_nat n) \<le> of_int 1 * two_pow 0"
    using b nn by (intro fdiv_le) (simp_all add: algebra_simps)
  then have rs1: "rs \<le> of_int 200 * two_pow (- 1)"
    unfolding rs_def by (rule fmul_le) (simp_all add: two_pow_def)
  have "fadd sc pr \<le> of_int 325 * two_pow (- 1)"
    by (rule fadd_le_grid [OF sc1 pr1]) simp_all
  then have "fadd (fadd sc pr) rs \<le> of_int 525 * two_pow (- 1)"
    by (rule fadd_le_grid [OF _ rs1]) simp_all
  then have "fdiv (fadd (fadd sc pr) rs) 3 \<le> of_int 175 * two_pow (- 1)"
    by (intro fdiv_le) (simp_all add: two_pow_def)
  then have "fdiv (fadd (fadd sc pr) rs) 3 \<le> 100" by (simp add: two_pow_def)
  moreover have "0 \<le> fdiv (fadd (fadd sc pr) rs) 3"
    using sc0 pr0 rs0 by (simp add: fdiv_nonneg fadd_nonneg)
  ultimately show ?thesis by (simp only: ov)
qed


lemma closedAlerts_zero: "closedAlerts (metrics (calculateRepoMetrics r)) = 0"
  by (simp add: calculateRepoMetrics_def Let_def)

lemma auditAll_recorded:
  assumes "auditAll e rs a = Some a'"
    and "\<forall>r\<in>set (repositories (results a)).
           \<not> secretScanning_pushProtection (securityFeatures r) \<and> closedAlerts (metrics r) = 0"
  shows "\<forall>r\<in>set (repositories (results a')).
           \<not> secretScanning_pushProtection (securityFeatures r) \<and> closedAlerts (metrics r) = 0"
  using assms
proof (induction rs arbitrary: a)
  case Nil
  then show ?case by simp
next
  case (Cons r rs)
  then obtain a1 where a1: "auditRepository e r a = Some a1" "auditAll e rs a1 = Some a'"
    by (auto split: option.splits)
  from auditRepository_Some [OF a1(1)] obtain ra ws where
    ra: "a1 = a\<lparr> results := record_repoAudit ra (results a), warnings := ws \<rparr>"
        "\<not> secretScanning_pushProtection (securityFeatures ra)"
    by blast
  have "\<forall>r\<in>set (repositories (results a1)).
           \<not> secretScanning_pushProtection (securityFeatures r) \<and> closedAlerts (metrics r) = 0"
    using Cons.prems(2) ra
    by (simp add: record_repoAudit_repositories calculateRepoMetrics_alerts closedAlerts_zero)
  then show ?case by (rule Cons.IH [OF a1(2)])
qed

text \<open>
  Claim C5. Every run that completes, on any platform behaviour and with fewer than \<open>2^32\<close>
  repositories (the bound of a JavaScript array), ends with an \<open>overallScore\<close> in \<open>[0, 100]\<close>
  and with every framework score in \<open>[0, 100]\<close>, whatever the numbers and severities of the
  alerts. The framework scores are capped by \<^verbatim>\<open>Math.min\<close>; the overall score is not, and
  its bound rests on what \<^verbatim>\<open>auditRepository\<close> records.
\<close>

theorem C5_score_bounds:
  assumes "run e (GHASAudit org' options' now) = Some (Inr a)"
    and "length (repositories (results a)) < 2 ^ 32"
  shows "0 \<le> overallScore (compliance (results a)) \<and>
         overallScore (compliance (results a)) \<le> 100 \<and>
         (\<forall>framework f. frameworks (compliance (results a)) framework = Some f \<longrightarrow>
            0 \<le> score f \<and> score f \<le> 100)"
proof -
  from assms(1) obtain repos ws a0 a1 where
    a0: "a0 = (GHASAudit org' options' now)\<lparr> warnings := warnings (GHASAudit org' options' now) @ ws,
          results := (results (GHASAudit org' options' now))\<lparr> summary :=
            (summary (results (GHASAudit org' options' now)))\<lparr> totalRepositories := int (length repos) \<rparr> \<rparr> \<rparr>"
    and a1: "auditAll e repos a0 = Some a1"
    and a: "a = a1\<lparr> results := calculateCompliance (results a1) \<rparr>"
    by (auto simp: run_def Let_def split: option.splits sum.splits prod.splits)
  have "repositories (results a0) = []" by (simp add: a0 GHASAudit_def)
  then have inv: "\<forall>r\<in>set (repositories (results a1)).
           \<not> secretScanning_pushProtection (securityFeatures r) \<and> closedAlerts (metrics r) = 0"
    by (intro auditAll_recorded [OF a1]) simp
  have c0: "compliance (results a1) = \<lparr> overallScore = 0, frameworks = Map.empty \<rparr>"
    using auditAll_compliance [OF a1] by (simp add: a0 GHASAudit_def)
  have len: "length (repositories (results a1)) < 2 ^ 32"
    using assms(2) a by (simp add: calculateCompliance_repositories)
  show ?thesis
  proof (cases "repositories (results a1) = []")
    case True
    then have "calculateCompliance (results a1) = results a1"
      by (simp add: calculateCompliance_def)
    then show ?thesis using a c0 by simp
  next
    case False
    have fw: "frameworks (compliance (calculateCompliance (results a1))) =
        [''OWASP'' \<mapsto> \<lparr> score = calculateOWASPCompliance (results a1),
                        details = ''Based on OWASP Top 10 coverage'' \<rparr>,
         ''NIST'' \<mapsto> \<lparr> score = calculateNISTCompliance (results a1),
                       details = ''Based on NIST Cybersecurity Framework'' \<rparr>,
         ''ISO27001'' \<mapsto> \<lparr> score = calculateISOCompliance (results a1),
                           details = ''Based on ISO 27001 controls'' \<rparr>]"
      using False by (simp add: calculateCompliance_def Let_def)
    have "\<forall>framework f. frameworks (compliance (calculateCompliance (results a1))) framework = Some f \<longrightarrow>
            0 \<le> score f \<and> score f \<le> 100"
      unfolding fw using OWASP_bounds [of "results a1"] NIST_bounds [of "results a1"]
        ISO_bounds [of "results a1"]
      by (auto split: if_splits)
    with overallScore_bounds [OF inv False len] show ?thesis by (simp add: a)
  qed
qed

lemma listForOrg_one_page:
  assumes "fetch 1 = Inr data" "length data \<noteq> 100"
  shows "listForOrg_loop fetch 1 [] = Some (Inr data)"
  using assms by (subst listForOrg_loop.simps) simp

lemma auditRepository_returns:
  assumes "getCodeScanningAlerts e r = Some c" "getSecretScanningAlerts e r = Some s"
    and "getDependabotAlerts e r = Some d"
  shows "\<exists>a'. auditRepository e r a = Some a'"
  using assms
  by (cases "getSecurityFeatures e r"; cases d)
     (simp add: auditRepository_def Let_def)

theorem C5_score_bounds_witness:
  "\<exists>a. run flaky_dependabot_org (GHASAudit ''acme'' acme_options ''2025-06-30T00:00:00.000Z'') =
          Some (Inr a) \<and>
        length (repositories (results a)) < 2 ^ 32 \<and>
        0 \<le> overallScore (compliance (results a)) \<and>
        overallScore (compliance (results a)) \<le> 100"
proof -
  let ?a0 = "GHASAudit ''acme'' acme_options ''2025-06-30T00:00:00.000Z''"
  have l: "listForOrg_loop (repos_listForOrg flaky_dependabot_org) 1 [] = Some (Inr [payment_api])"
    by (rule listForOrg_one_page)
       (simp_all add: flaky_dependabot_org_def one_repo_org_def empty_org_def)
  have g: "getRepositories flaky_dependabot_org ?a0 = Some (Inr ([payment_api], []))"
    using l by (simp add: getRepositories_def GHASAudit_def acme_options_def)
  have d: "getDependabotAlerts flaky_dependabot_org payment_api =
      Some ([map_dependency_alert lodash_advisory],
            [''Warning: Could not fetch Dependabot alerts via GraphQL for '' @ repo_name payment_api])"
    using getDependabotAlerts_fails_on_page_2 [OF flaky_page1 _ , of bad_gateway] flaky_page2
    by simp
  obtain a1 where a1: "auditRepository flaky_dependabot_org payment_api
      (?a0\<lparr> warnings := warnings ?a0 @ [],
            results := (results ?a0)\<lparr> summary :=
              (summary (results ?a0))\<lparr> totalRepositories := int (length [payment_api]) \<rparr> \<rparr> \<rparr>) = Some a1"
    using auditRepository_returns [OF flaky_code flaky_secret d] by blast
  from auditRepository_Some [OF a1] have n: "length (repositories (results a1)) = 1"
    by (auto simp: record_repoAudit_repositories GHASAudit_def)
  have r: "run flaky_dependabot_org ?a0 = Some (Inr (a1\<lparr> results := calculateCompliance (results a1) \<rparr>))"
    using g a1 by (simp add: run_def Let_def)
  have len: "length (repositories (results (a1\<lparr> results := calculateCompliance (results a1) \<rparr>))) < 2 ^ 32"
    using n by (simp add: calculateCompliance_repositories)
  from C5_score_bounds [OF r len] r len show ?thesis by blast
qed

section \<open>Order of processing\<close>

text \<open>The roundings of the two runs below, each checked from its significand and exponent.\<close>

lemma score_1:
  "fl (33 / 100) = 5944751508129055 / 18014398509481984"
  by (rule trans [OF fl_eqI [where e = "- 54" and m = "5944751508129055"]]) (simp_all add: two_pow_def)

lemma score_2:
  "fl (17 / 50) = 6124895493223875 / 18014398509481984"
  by (rule trans [OF fl_eqI [where e = "- 54" and m = "6124895493223875"]]) (simp_all add: two_pow_def)

lemma score_3:
  "fadd (0) (1) = 1"
  unfolding fadd_def
  by simp

lemma score_4:
  "fadd (0) (6124895493223875 / 18014398509481984) = 6124895493223875 / 18014398509481984"
  unfolding fadd_def
  by (rule trans [OF fl_eqI [where e = "- 54" and m = "6124895493223875"]]) (simp_all add: two_pow_def)

lemma score_5:
  "fadd (1) (1) = 2"
  unfolding fadd_def
  by simp

lemma score_6:
  "fadd (6124895493223875 / 18014398509481984) (5944751508129055 / 18014398509481984) = 6034823500676465 / 9007199254740992"
  unfolding fadd_def
  by (rule trans [OF fl_eqI [where e = "- 53" and m = "6034823500676465"]]) (simp_all add: two_pow_def)

lemma score_7:
  "fadd (6034823500676465 / 9007199254740992) (6124895493223875 / 18014398509481984) = 4548635623644201 / 4503599627370496"
  unfolding fadd_def
  by (rule trans [OF fl_eqI [where e = "- 52" and m = "4548635623644201"]]) (simp_all add: two_pow_def)

lemma score_8:
  "fadd (2) (1) = 3"
  unfolding fadd_def
  by simp

lemma score_9:
  "fadd (4548635623644201 / 4503599627370496) (5944751508129055 / 18014398509481984) = 6034823500676465 / 4503599627370496"
  unfolding fadd_def
  by (rule trans [OF fl_eqI [where e = "- 52" and m = "6034823500676465"]]) (simp_all add: two_pow_def)

lemma score_10:
  "fadd (6034823500676465 / 4503599627370496) (5944751508129055 / 18014398509481984) = 7521011377708729 / 4503599627370496"
  unfolding fadd_def
  by (rule trans [OF fl_eqI [where e = "- 52" and m = "7521011377708729"]]) (simp_all add: two_pow_def)

lemma score_11:
  "fadd (7521011377708729 / 4503599627370496) (6124895493223875 / 18014398509481984) = 4526117625507349 / 2251799813685248"
  unfolding fadd_def
  by (rule trans [OF fl_eqI [where e = "- 51" and m = "4526117625507349"]]) (simp_all add: two_pow_def)

lemma score_12:
  "fadd (3) (1) = 4"
  unfolding fadd_def
  by simp

lemma score_13:
  "fadd (4526117625507349 / 2251799813685248) (5944751508129055 / 18014398509481984) = 5269211564023481 / 2251799813685248"
  unfolding fadd_def
  by (rule trans [OF fl_eqI [where e = "- 51" and m = "5269211564023481"]]) (simp_all add: two_pow_def)

lemma score_14:
  "fadd (5269211564023481 / 2251799813685248) (5944751508129055 / 18014398509481984) = 6012305502539613 / 2251799813685248"
  unfolding fadd_def
  by (rule trans [OF fl_eqI [where e = "- 51" and m = "6012305502539613"]]) (simp_all add: two_pow_def)

lemma score_15:
  "fadd (6012305502539613 / 2251799813685248) (6124895493223875 / 18014398509481984) = 6777917439192597 / 2251799813685248"
  unfolding fadd_def
  by (rule trans [OF fl_eqI [where e = "- 51" and m = "6777917439192597"]]) (simp_all add: two_pow_def)

lemma score_16:
  "fadd (4) (1) = 5"
  unfolding fadd_def
  by simp

lemma score_17:
  "fdiv (6777917439192597 / 2251799813685248) (5) = 2711166975677039 / 4503599627370496"
  unfolding fdiv_def
  by (rule trans [OF fl_eqI [where e = "- 53" and m = "5422333951354078"]]) (simp_all add: two_pow_def)

lemma score_18:
  "fmul (2711166975677039 / 4503599627370496) (100) = 8472396798990747 / 140737488355328"
  unfolding fmul_def
  by (rule trans [OF fl_eqI [where e = "- 47" and m = "8472396798990747"]]) (simp_all add: two_pow_def)

lemma score_19:
  "fdiv (0) (5) = 0"
  unfolding fdiv_def
  by simp

lemma score_20:
  "fmul (0) (100) = 0"
  unfolding fmul_def
  by simp

lemma score_21:
  "fdiv (5) (5) = 1"
  unfolding fdiv_def
  by simp

lemma score_22:
  "fmul (1) (100) = 100"
  unfolding fmul_def
  by simp

lemma score_23:
  "fadd (8472396798990747 / 140737488355328) (0) = 8472396798990747 / 140737488355328"
  unfolding fadd_def
  by (rule trans [OF fl_eqI [where e = "- 47" and m = "8472396798990747"]]) (simp_all add: two_pow_def)

lemma score_24:
  "fadd (8472396798990747 / 140737488355328) (100) = 5636536408630887 / 35184372088832"
  unfolding fadd_def
  by (rule trans [OF fl_eqI [where e = "- 45" and m = "5636536408630887"]]) (simp_all add: two_pow_def)

lemma score_25:
  "fdiv (5636536408630887 / 35184372088832) (3) = 1878845469543629 / 35184372088832"
  unfolding fdiv_def
  by (rule trans [OF fl_eqI [where e = "- 47" and m = "7515381878174516"]]) (simp_all add: two_pow_def)

lemma score_26:
  "fadd (0) (5944751508129055 / 18014398509481984) = 5944751508129055 / 18014398509481984"
  unfolding fadd_def
  by (rule trans [OF fl_eqI [where e = "- 54" and m = "5944751508129055"]]) (simp_all add: two_pow_def)

lemma score_27:
  "fadd (5944751508129055 / 18014398509481984) (5944751508129055 / 18014398509481984) = 5944751508129055 / 9007199254740992"
  unfolding fadd_def
  by (rule trans [OF fl_eqI [where e = "- 53" and m = "5944751508129055"]]) (simp_all add: two_pow_def)

lemma score_28:
  "fadd (5944751508129055 / 9007199254740992) (6124895493223875 / 18014398509481984) = 1"
  unfolding fadd_def
  by (rule trans [OF fl_eqI [where e = "- 52" and m = "4503599627370496"]]) (simp_all add: two_pow_def)

lemma score_29:
  "fadd (1) (5944751508129055 / 18014398509481984) = 748723438050345 / 562949953421312"
  unfolding fadd_def
  by (rule trans [OF fl_eqI [where e = "- 52" and m = "5989787504402760"]]) (simp_all add: two_pow_def)

lemma score_30:
  "fadd (748723438050345 / 562949953421312) (5944751508129055 / 18014398509481984) = 467248461339689 / 281474976710656"
  unfolding fadd_def
  by (rule trans [OF fl_eqI [where e = "- 52" and m = "7475975381435024"]]) (simp_all add: two_pow_def)

lemma score_31:
  "fadd (467248461339689 / 281474976710656) (6124895493223875 / 18014398509481984) = 2"
  unfolding fadd_def
  by (rule trans [OF fl_eqI [where e = "- 51" and m = "4503599627370496"]]) (simp_all add: two_pow_def)

lemma score_32:
  "fadd (2) (5944751508129055 / 18014398509481984) = 1311673391471657 / 562949953421312"
  unfolding fadd_def
  by (rule trans [OF fl_eqI [where e = "- 51" and m = "5246693565886628"]]) (simp_all add: two_pow_def)

lemma score_33:
  "fadd (1311673391471657 / 562949953421312) (6124895493223875 / 18014398509481984) = 1503076375634903 / 562949953421312"
  unfolding fadd_def
  by (rule trans [OF fl_eqI [where e = "- 51" and m = "6012305502539612"]]) (simp_all add: two_pow_def)

lemma score_34:
  "fadd (1503076375634903 / 562949953421312) (6124895493223875 / 18014398509481984) = 1694479359798149 / 562949953421312"
  unfolding fadd_def
  by (rule trans [OF fl_eqI [where e = "- 51" and m = "6777917439192596"]]) (simp_all add: two_pow_def)

lemma score_35:
  "fdiv (1694479359798149 / 562949953421312) (5) = 5422333951354077 / 9007199254740992"
  unfolding fdiv_def
  by (rule trans [OF fl_eqI [where e = "- 53" and m = "5422333951354077"]]) (simp_all add: two_pow_def)

lemma score_36:
  "fmul (5422333951354077 / 9007199254740992) (100) = 8472396798990745 / 140737488355328"
  unfolding fmul_def
  by (rule trans [OF fl_eqI [where e = "- 47" and m = "8472396798990745"]]) (simp_all add: two_pow_def)

lemma score_37:
  "fadd (8472396798990745 / 140737488355328) (0) = 8472396798990745 / 140737488355328"
  unfolding fadd_def
  by (rule trans [OF fl_eqI [where e = "- 47" and m = "8472396798990745"]]) (simp_all add: two_pow_def)

lemma score_38:
  "fadd (8472396798990745 / 140737488355328) (100) = 2818268204315443 / 17592186044416"
  unfolding fadd_def
  by (rule trans [OF fl_eqI [where e = "- 45" and m = "5636536408630886"]]) (simp_all add: two_pow_def)

lemma score_39:
  "fdiv (2818268204315443 / 17592186044416) (3) = 7515381878174515 / 140737488355328"
  unfolding fdiv_def
  by (rule trans [OF fl_eqI [where e = "- 47" and m = "7515381878174515"]]) (simp_all add: two_pow_def)

lemmas score_steps = score_1 score_2 score_3 score_4 score_5 score_6 score_7 score_8 score_9 score_10 score_11 score_12 score_13 score_14 score_15 score_16 score_17 score_18 score_19 score_20 score_21 score_22 score_23 score_24 score_25 score_26 score_27 score_28 score_29 score_30 score_31 score_32 score_33 score_34 score_35 score_36 score_37 score_38 score_39

lemma calculateRepoMetrics_repo_with:
  "calculateRepoMetrics (repo_with c s d) = repo_with c s d"
  by (simp add: calculateRepoMetrics_def repo_with_def blank_repoAudit_def allAlerts_def Let_def
      fresh_metrics_def)

lemma repositories_record_all:
  "repositories (record_all rs res) = repositories res @ map calculateRepoMetrics rs"
  by (induction rs arbitrary: res) (simp_all add: record_all_def record_repoAudit_repositories)

lemma score_repo_with:
  "score_repo st (repo_with c s d) =
     \<lparr> scanning =
         (let x = scanning st;
              x = (if c then fadd x (fl (33 / 100)) else x);
              x = (if s then fadd x (fl (33 / 100)) else x)
          in if d then fadd x (fl (34 / 100)) else x),
       protection = protection st,
       resolution_score = fadd (resolution_score st) 1 \<rparr>"
  by (simp add: score_repo_def repo_with_def blank_repoAudit_def no_features_def Let_def
      fresh_metrics_def)

text \<open>
  Claim C6, as stated, fails for \<open>overallScore\<close>: the scanning sub-score is a binary64 sum
  accumulated in processing order. The five repositories give 53.400000000000006 in one
  order and 53.4 (the double nearest to it) in the reverse order.
\<close>

theorem C6_counterexample:
  "mset (rev five_repos) = mset five_repos \<and>
   overallScore (compliance (calculateCompliance (record_all five_repos (results acme_audit)))) =
     1878845469543629 / 35184372088832 \<and>
   overallScore (compliance (calculateCompliance (record_all (rev five_repos) (results acme_audit)))) =
     7515381878174515 / 140737488355328"
  by (simp add: calculateCompliance_def repositories_record_all five_repos_def
      calculateRepoMetrics_repo_with score_repo_with Let_def acme_audit_def GHASAudit_def
      score_steps)

lemma overallScore_five_repos:
  "overallScore (compliance (calculateCompliance (record_all five_repos (results acme_audit)))) =
     1878845469543629 / 35184372088832"
  by (simp add: calculateCompliance_def repositories_record_all five_repos_def
      calculateRepoMetrics_repo_with score_repo_with Let_def acme_audit_def GHASAudit_def
      score_steps)

lemma overallScore_five_repos_rev:
  "overallScore (compliance (calculateCompliance
     (record_all (rev five_repos) (results acme_audit)))) =
     7515381878174515 / 140737488355328"
  by (simp add: calculateCompliance_def repositories_record_all five_repos_def
      calculateRepoMetrics_repo_with score_repo_with Let_def acme_audit_def GHASAudit_def
      score_steps)

lemma frameworks_NIST:
  "repositories res \<noteq> [] \<Longrightarrow>
   frameworks (compliance (calculateCompliance res)) ''NIST'' =
     Some \<lparr> score = calculateNISTCompliance res,
            details = ''Based on NIST Cybersecurity Framework'' \<rparr>"
  by (simp add: calculateCompliance_def Let_def)

subsection \<open>The NIST score\<close>

lemma mttr_1:
  "fadd (0) (20) = 20"
  unfolding fadd_def
  by simp

lemma mttr_2:
  "fdiv (0) (3) = 0"
  unfolding fdiv_def
  by simp

lemma mttr_3:
  "fmul (0) (20) = 0"
  unfolding fmul_def
  by simp

lemma mttr_4:
  "fadd (20) (0) = 20"
  unfolding fadd_def
  by simp

lemma mttr_5:
  "fsub (7200000) (0) = 7200000"
  unfolding fsub_def
  by simp

lemma mttr_6:
  "fdiv (7200000) (86400000) = 6004799503160661 / 72057594037927936"
  unfolding fdiv_def
  by (rule trans [OF fl_eqI [where e = "- 56" and m = "6004799503160661"]]) (simp_all add: two_pow_def)

lemma mttr_7:
  "fadd (0) (6004799503160661 / 72057594037927936) = 6004799503160661 / 72057594037927936"
  unfolding fadd_def
  by (rule trans [OF fl_eqI [where e = "- 56" and m = "6004799503160661"]]) (simp_all add: two_pow_def)

lemma mttr_8:
  "fdiv (6004799503160661 / 72057594037927936) (1) = 6004799503160661 / 72057594037927936"
  unfolding fdiv_def
  by (rule trans [OF fl_eqI [where e = "- 56" and m = "6004799503160661"]]) (simp_all add: two_pow_def)

lemma mttr_9:
  "fadd (6004799503160661 / 72057594037927936) (6004799503160661 / 72057594037927936) = 6004799503160661 / 36028797018963968"
  unfolding fadd_def
  by (rule trans [OF fl_eqI [where e = "- 55" and m = "6004799503160661"]]) (simp_all add: two_pow_def)

lemma mttr_10:
  "fsub (1800000000) (0) = 1800000000"
  unfolding fsub_def
  by simp

lemma mttr_11:
  "fdiv (1800000000) (86400000) = 5864062014805333 / 281474976710656"
  unfolding fdiv_def
  by (rule trans [OF fl_eqI [where e = "- 48" and m = "5864062014805333"]]) (simp_all add: two_pow_def)

lemma mttr_12:
  "fadd (0) (5864062014805333 / 281474976710656) = 5864062014805333 / 281474976710656"
  unfolding fadd_def
  by (rule trans [OF fl_eqI [where e = "- 48" and m = "5864062014805333"]]) (simp_all add: two_pow_def)

lemma mttr_13:
  "fdiv (5864062014805333 / 281474976710656) (1) = 5864062014805333 / 281474976710656"
  unfolding fdiv_def
  by (rule trans [OF fl_eqI [where e = "- 48" and m = "5864062014805333"]]) (simp_all add: two_pow_def)

lemma mttr_14:
  "fadd (6004799503160661 / 36028797018963968) (5864062014805333 / 281474976710656) = 21"
  unfolding fadd_def
  by (rule trans [OF fl_eqI [where e = "- 48" and m = "5910974510923776"]]) (simp_all add: two_pow_def)

lemma mttr_15:
  "fdiv (21) (3) = 7"
  unfolding fdiv_def
  by simp

lemma mttr_16:
  "fadd (20) (10) = 30"
  unfolding fadd_def
  by simp

lemma mttr_17:
  "fadd (30) (20) = 50"
  unfolding fadd_def
  by simp

lemma mttr_18:
  "fadd (6004799503160661 / 72057594037927936) (5864062014805333 / 281474976710656) = 2943759131432277 / 140737488355328"
  unfolding fadd_def
  by (rule trans [OF fl_eqI [where e = "- 48" and m = "5887518262864554"]]) (simp_all add: two_pow_def)

lemma mttr_19:
  "fadd (2943759131432277 / 140737488355328) (6004799503160661 / 72057594037927936) = 5910974510923775 / 281474976710656"
  unfolding fadd_def
  by (rule trans [OF fl_eqI [where e = "- 48" and m = "5910974510923775"]]) (simp_all add: two_pow_def)

lemma mttr_20:
  "fdiv (5910974510923775 / 281474976710656) (3) = 7881299347898367 / 1125899906842624"
  unfolding fdiv_def
  by (rule trans [OF fl_eqI [where e = "- 50" and m = "7881299347898367"]]) (simp_all add: two_pow_def)

lemma mttr_21:
  "fadd (20) (20) = 40"
  unfolding fadd_def
  by simp

lemma mttr_22:
  "fadd (40) (20) = 60"
  unfolding fadd_def
  by simp

lemmas mttr_steps = mttr_1 mttr_2 mttr_3 mttr_4 mttr_5 mttr_6 mttr_7 mttr_8 mttr_9 mttr_10 mttr_11 mttr_12 mttr_13 mttr_14 mttr_15 mttr_16 mttr_17 mttr_18 mttr_19 mttr_20 mttr_21 mttr_22

lemma calculateRepoMetrics_resolved_after:
  "meanTimeToResolve (metrics (calculateRepoMetrics (resolved_after ms))) =
     fdiv (fadd 0 (fdiv (fsub (of_int ms) 0) 86400000)) 1"
  by (simp add: calculateRepoMetrics_def resolved_after_def blank_repoAudit_def allAlerts_def
      Let_def resolution_def resolutionTime_def resolved_secret_def List.map_filter_simps)

lemma securityFeatures_resolved_after:
  "securityFeatures (calculateRepoMetrics (resolved_after ms)) = no_features"
  by (simp add: calculateRepoMetrics_alerts resolved_after_def blank_repoAudit_def)

text \<open>
  The NIST score is not independent of the order, once the platform returns secret
  alerts that carry \<^verbatim>\<open>resolved_at\<close>: the average response time is a binary64 sum in
  processing order, compared with 7. Three repositories whose alerts took 2, 2 and 500 hours
  average exactly 7 days in one order (score 50) and 6.999999999999999 in another (score 60).
\<close>

lemma NIST_depends_on_order:
  "mset [resolved_after 7200000, resolved_after 1800000000, resolved_after 7200000] =
     mset [resolved_after 7200000, resolved_after 7200000, resolved_after 1800000000] \<and>
   calculateNISTCompliance (record_all
     [resolved_after 7200000, resolved_after 7200000, resolved_after 1800000000]
     (results acme_audit)) = 50 \<and>
   calculateNISTCompliance (record_all
     [resolved_after 7200000, resolved_after 1800000000, resolved_after 7200000]
     (results acme_audit)) = 60"
  by (simp add: calculateNISTCompliance_def repositories_record_all Let_def acme_audit_def
      GHASAudit_def calculateRepoMetrics_resolved_after securityFeatures_resolved_after
      no_features_def mttr_steps)

subsection \<open>What does not depend on the order\<close>

lemma sum_list_perm:
  fixes f :: "'a \<Rightarrow> int"
  assumes "mset xs = mset ys"
  shows "sum_list (map f xs) = sum_list (map f ys)"
proof -
  have "mset (map f xs) = mset (map f ys)" using assms by simp
  then show ?thesis by (metis sum_mset_sum_list)
qed

lemma length_filter_perm:
  assumes "mset xs = mset ys"
  shows "length (filter P xs) = length (filter P ys)"
proof -
  have "mset (filter P xs) = mset (filter P ys)" using assms by simp
  then show ?thesis by (rule mset_eq_length)
qed

lemma foldl_add_sum:
  fixes g :: "'a \<Rightarrow> int"
  shows "foldl (\<lambda>count x. count + g x) c xs = c + sum_list (map g xs)"
  by (induction xs arbitrary: c) simp_all

lemma summary_record_repoAudit:
  "summary (record_repoAudit r res) =
     (summary (updateSummary (calculateRepoMetrics r) res))
       \<lparr> scannedRepositories := scannedRepositories (summary res) + 1 \<rparr>"
  by (simp add: record_repoAudit_def Let_def updateSummary_fields)

text \<open>The summary after a list of repositories: every counter is its start plus a sum.\<close>

lemma summary_record_all:
  "summary (record_all rs res) =
     \<lparr> totalRepositories = totalRepositories (summary res),
       scannedRepositories = scannedRepositories (summary res) + int (length rs),
       summary_totalAlerts = summary_totalAlerts (summary res) +
         sum_list (map (\<lambda>r. totalAlerts (metrics (calculateRepoMetrics r))) rs),
       criticalAlerts = criticalAlerts (summary res) +
         sum_list (map (\<lambda>r.
           int (length (filter (\<lambda>a. code_severity a = ''critical'') (alerts_code r))) +
           int (length (filter (\<lambda>a. dep_severity a = ''CRITICAL'') (alerts_dependency r)))) rs),
       highAlerts = highAlerts (summary res) +
         sum_list (map (\<lambda>r.
           int (length (filter (\<lambda>a. code_severity a = ''high'') (alerts_code r))) +
           int (length (filter (\<lambda>a. dep_severity a = ''HIGH'') (alerts_dependency r)))) rs),
       mediumAlerts = mediumAlerts (summary res) +
         sum_list (map (\<lambda>r.
           int (length (filter (\<lambda>a. code_severity a = ''medium'') (alerts_code r))) +
           int (length (filter (\<lambda>a. dep_severity a = ''MODERATE'') (alerts_dependency r)))) rs),
       lowAlerts = lowAlerts (summary res) +
         sum_list (map (\<lambda>r.
           int (length (filter (\<lambda>a. code_severity a = ''low'') (alerts_code r))) +
           int (length (filter (\<lambda>a. dep_severity a = ''LOW'') (alerts_dependency r)))) rs),
       secretAlerts = secretAlerts (summary res) +
         sum_list (map (\<lambda>r. int (length (alerts_secret r))) rs),
       dependencyAlerts = dependencyAlerts (summary res) +
         sum_list (map (\<lambda>r. int (length (alerts_dependency r))) rs),
       codeAlerts = codeAlerts (summary res) +
         sum_list (map (\<lambda>r. int (length (alerts_code r))) rs) \<rparr>"
proof (induction rs arbitrary: res)
  case Nil
  then show ?case by (simp add: record_all_def)
next
  case (Cons r rs)
  have "record_all (r # rs) res = record_all rs (record_repoAudit r res)"
    by (simp add: record_all_def)
  then show ?case
    by (simp add: Cons.IH summary_record_repoAudit updateSummary_fields
        calculateRepoMetrics_alerts)
qed

lemma summary_record_all_perm:
  assumes "mset rs' = mset rs"
  shows "summary (record_all rs' res) = summary (record_all rs res)"
  unfolding summary_record_all
  using sum_list_perm [OF assms] mset_eq_length [OF assms] by simp

lemma OWASP_perm:
  assumes "mset (repositories res') = mset (repositories res)" "summary res' = summary res"
  shows "calculateOWASPCompliance res' = calculateOWASPCompliance res"
  unfolding calculateOWASPCompliance_def Let_def foldl_add_sum
  using sum_list_perm [OF assms(1)] length_filter_perm [OF assms(1)] mset_eq_length [OF assms(1)]
    assms(2)
  by simp

lemma ISO_perm:
  assumes "mset (repositories res') = mset (repositories res)"
  shows "calculateISOCompliance res' = calculateISOCompliance res"
  unfolding calculateISOCompliance_def Let_def
  using length_filter_perm [OF assms(1)] mset_eq_length [OF assms(1)]
  by simp

lemma compliance_record_all: "compliance (record_all rs res) = compliance res"
  by (induction rs arbitrary: res) (simp_all add: record_all_def record_repoAudit_compliance)

text \<open>
  Claim C6, amended. Recording the same repositories in another order gives the same fleet
  summary and the same OWASP and ISO27001 entries: they depend on counts only. The
  \<open>overallScore\<close> and the NIST entry are not independent of the order: the five repositories
  above give two overall scores, and the three repositories above give two NIST entries.
\<close>

theorem C6_order_independence:
  assumes "mset rs' = mset rs"
  shows "summary (calculateCompliance (record_all rs' res)) =
           summary (calculateCompliance (record_all rs res)) \<and>
         frameworks (compliance (calculateCompliance (record_all rs' res))) ''OWASP'' =
           frameworks (compliance (calculateCompliance (record_all rs res))) ''OWASP'' \<and>
         frameworks (compliance (calculateCompliance (record_all rs' res))) ''ISO27001'' =
           frameworks (compliance (calculateCompliance (record_all rs res))) ''ISO27001'' \<and>
         mset (rev five_repos) = mset five_repos \<and>
         overallScore (compliance (calculateCompliance
             (record_all (rev five_repos) (results acme_audit)))) \<noteq>
           overallScore (compliance (calculateCompliance
             (record_all five_repos (results acme_audit)))) \<and>
         mset [resolved_after 7200000, resolved_after 1800000000, resolved_after 7200000] =
           mset [resolved_after 7200000, resolved_after 7200000, resolved_after 1800000000] \<and>
         frameworks (compliance (calculateCompliance (record_all
             [resolved_after 7200000, resolved_after 1800000000, resolved_after 7200000]
             (results acme_audit)))) ''NIST'' \<noteq>
           frameworks (compliance (calculateCompliance (record_all
             [resolved_after 7200000, resolved_after 7200000, resolved_after 1800000000]
             (results acme_audit)))) ''NIST''"
proof -
  have m: "mset (repositories (record_all rs' res)) = mset (repositories (record_all rs res))"
    using assms by (simp add: repositories_record_all)
  have s: "summary (record_all rs' res) = summary (record_all rs res)"
    by (rule summary_record_all_perm [OF assms])
  have e: "repositories (record_all rs' res) = [] \<longleftrightarrow> repositories (record_all rs res) = []"
    using mset_eq_length [OF m] by auto
  have o: "calculateOWASPCompliance (record_all rs' res) = calculateOWASPCompliance (record_all rs res)"
    by (rule OWASP_perm [OF m s])
  have i: "calculateISOCompliance (record_all rs' res) = calculateISOCompliance (record_all rs res)"
    by (rule ISO_perm [OF m])
  have independent:
    "summary (calculateCompliance (record_all rs' res)) =
       summary (calculateCompliance (record_all rs res)) \<and>
     frameworks (compliance (calculateCompliance (record_all rs' res))) ''OWASP'' =
       frameworks (compliance (calculateCompliance (record_all rs res))) ''OWASP'' \<and>
     frameworks (compliance (calculateCompliance (record_all rs' res))) ''ISO27001'' =
       frameworks (compliance (calculateCompliance (record_all rs res))) ''ISO27001''"
    using e s o i
    by (simp add: calculateCompliance_def Let_def compliance_record_all)
  have overall:
    "overallScore (compliance (calculateCompliance
         (record_all (rev five_repos) (results acme_audit)))) \<noteq>
       overallScore (compliance (calculateCompliance
         (record_all five_repos (results acme_audit))))"
    by (simp add: overallScore_five_repos overallScore_five_repos_rev)
  have nist:
    "frameworks (compliance (calculateCompliance (record_all
         [resolved_after 7200000, resolved_after 1800000000, resolved_after 7200000]
         (results acme_audit)))) ''NIST'' \<noteq>
       frameworks (compliance (calculateCompliance (record_all
         [resolved_after 7200000, resolved_after 7200000, resolved_after 1800000000]
         (results acme_audit)))) ''NIST''"
    using NIST_depends_on_order
    by (simp add: frameworks_NIST repositories_record_all)
  have p: "mset [resolved_after 7200000, resolved_after 1800000000, resolved_after 7200000] =
           mset [resolved_after 7200000, resolved_after 7200000, resolved_after 1800000000]"
    by simp
  from independent overall nist p show ?thesis by simp
qed

theorem C6_order_independence_witness:
  "mset (rev five_repos) = mset five_repos \<and>
   summary (calculateCompliance (record_all (rev five_repos) (results acme_audit))) =
     summary (calculateCompliance (record_all five_repos (results acme_audit))) \<and>
   frameworks (compliance (calculateCompliance (record_all (rev five_repos) (results acme_audit)))) ''OWASP'' =
     frameworks (compliance (calculateCompliance (record_all five_repos (results acme_audit)))) ''OWASP'' \<and>
   frameworks (compliance (calculateCompliance (record_all (rev five_repos) (results acme_audit)))) ''ISO27001'' =
     frameworks (compliance (calculateCompliance (record_all five_repos (results acme_audit)))) ''ISO27001''"
proof -
  have h: "mset (rev five_repos) = mset five_repos" by simp
  from C6_order_independence [OF h, of "results acme_audit"] h show ?thesis by simp
qed

end
